theory Spec2Isabelle
  imports Complex_Main "HOL-Library.Word" "HOL-Library.Sublist"
begin

text \<open>
  A model of the policy package and of the retry-group coordinator of \<open>recourse\<close>, a Go
  library for calls into remote dependencies: policy keys and their parsing, policy
  normalization and construction, the fixed-delay hedge trigger, and \<open>doRetryGroup\<close>, which
  runs the primary attempt and the hedges of one retry group. Pure functions are HOL
  functions; errors are values of a sum type; the goroutines of \<open>doRetryGroup\<close> are
  functions of the sequence of cases their \<open>select\<close> statements take, and what an attempt
  does to the world is a trace of effects.
\<close>

section \<open>Basic types of the Go program\<close>

text \<open>
  \<open>time.Duration\<close> is an \<open>int64\<close> count of nanoseconds: a 64-bit word whose order is the
  signed one (\<open><s\<close>, \<open>\<le>s\<close>) and whose subtraction wraps around. Go's \<open>int\<close> is modelled
  by \<open>int\<close>: the code below compares such values with each other and with constants,
  assigns them, and adds 1 to a counter that stays below one of them, so nothing wraps
  around. Clock readings are numbers of nanoseconds.
\<close>

type_synonym duration = "64 word"

definition Millisecond :: duration where
  "Millisecond = 1000000"

definition Second :: duration where
  "Second = 1000000000"

text \<open>
  A \<open>float64\<close>, as far as the comparisons of \<open>Normalize\<close> can tell: not-a-number, the two
  infinities, or a finite value. Every comparison with \<open>NaN\<close> is false, as in IEEE 754.
\<close>

datatype float64 = NaN | NegInf | Finite rat | PosInf

fun f64_lt :: "float64 \<Rightarrow> float64 \<Rightarrow> bool" where
  "f64_lt NaN y = False"
| "f64_lt x NaN = False"
| "f64_lt PosInf y = False"
| "f64_lt x NegInf = False"
| "f64_lt NegInf y = True"
| "f64_lt x PosInf = True"
| "f64_lt (Finite a) (Finite b) = (a < b)"

definition f64_eq :: "float64 \<Rightarrow> float64 \<Rightarrow> bool" where
  "f64_eq x y = (x \<noteq> NaN \<and> y \<noteq> NaN \<and> x = y)"

section \<open>Package strings: what \<open>ParseKey\<close> uses\<close>

text \<open>
  A Go string is a sequence of bytes, here a \<open>char list\<close>. \<open>strings.TrimSpace\<close> removes
  leading and trailing white space as Unicode defines it, reading the bytes as UTF-8. A
  position of a string starts a white-space rune exactly when the bytes there start with
  the UTF-8 encoding of one of the 25 runes for which \<open>unicode.IsSpace\<close> holds (bytes that
  are no valid UTF-8 decode to \<open>U+FFFD\<close>, which is no space), and a string ends with such
  a rune exactly when its bytes end with one of these encodings. \<open>spaceRunes\<close> lists the
  encodings: tab, line feed, vertical tab, form feed, carriage return, space, \<open>U+0085\<close>,
  \<open>U+00A0\<close>, \<open>U+1680\<close>, \<open>U+2000\<close> to \<open>U+200A\<close>, \<open>U+2028\<close>, \<open>U+2029\<close>, \<open>U+202F\<close>,
  \<open>U+205F\<close> and \<open>U+3000\<close>.
\<close>

definition spaceRunes :: "string list" where
  "spaceRunes =
     [[CHR 0x09], [CHR 0x0A], [CHR 0x0B], [CHR 0x0C], [CHR 0x0D], [CHR 0x20],
      [CHR 0xC2, CHR 0x85], [CHR 0xC2, CHR 0xA0],
      [CHR 0xE1, CHR 0x9A, CHR 0x80],
      [CHR 0xE2, CHR 0x80, CHR 0x80], [CHR 0xE2, CHR 0x80, CHR 0x81],
      [CHR 0xE2, CHR 0x80, CHR 0x82], [CHR 0xE2, CHR 0x80, CHR 0x83],
      [CHR 0xE2, CHR 0x80, CHR 0x84], [CHR 0xE2, CHR 0x80, CHR 0x85],
      [CHR 0xE2, CHR 0x80, CHR 0x86], [CHR 0xE2, CHR 0x80, CHR 0x87],
      [CHR 0xE2, CHR 0x80, CHR 0x88], [CHR 0xE2, CHR 0x80, CHR 0x89],
      [CHR 0xE2, CHR 0x80, CHR 0x8A],
      [CHR 0xE2, CHR 0x80, CHR 0xA8], [CHR 0xE2, CHR 0x80, CHR 0xA9],
      [CHR 0xE2, CHR 0x80, CHR 0xAF], [CHR 0xE2, CHR 0x81, CHR 0x9F],
      [CHR 0xE3, CHR 0x80, CHR 0x80]]"

text \<open>The width in bytes of the white-space rune a string starts or ends with, 0 if none.\<close>

definition leadingSpace :: "string \<Rightarrow> nat" where
  "leadingSpace s =
     (case find (\<lambda>e. prefix e s) spaceRunes of None \<Rightarrow> 0 | Some e \<Rightarrow> length e)"

definition trailingSpace :: "string \<Rightarrow> nat" where
  "trailingSpace s =
     (case find (\<lambda>e. suffix e s) spaceRunes of None \<Rightarrow> 0 | Some e \<Rightarrow> length e)"

lemma leadingSpace_le: "leadingSpace s \<le> length s"
  by (auto simp add: leadingSpace_def find_Some_iff prefix_length_le split: option.splits)

lemma trailingSpace_le: "trailingSpace s \<le> length s"
  by (auto simp add: trailingSpace_def find_Some_iff suffix_length_le split: option.splits)

function TrimLeft :: "string \<Rightarrow> string" where
  "TrimLeft s = (if leadingSpace s = 0 then s else TrimLeft (drop (leadingSpace s) s))"
  by pat_completeness auto
termination
proof (relation "measure length")
  show "wf (measure length)" by simp
next
  fix s :: string
  assume "leadingSpace s \<noteq> 0"
  then show "(drop (leadingSpace s) s, s) \<in> measure length"
    using leadingSpace_le [of s] by simp
qed

function TrimRight :: "string \<Rightarrow> string" where
  "TrimRight s =
     (if trailingSpace s = 0 then s else TrimRight (take (length s - trailingSpace s) s))"
  by pat_completeness auto
termination
proof (relation "measure length")
  show "wf (measure length)" by simp
next
  fix s :: string
  assume "trailingSpace s \<noteq> 0"
  then show "(take (length s - trailingSpace s) s, s) \<in> measure length"
    using trailingSpace_le [of s] by simp
qed

declare TrimLeft.simps [simp del] TrimRight.simps [simp del]

definition TrimSpace :: "string \<Rightarrow> string" where
  "TrimSpace s = TrimRight (TrimLeft s)"

text \<open>\<open>strings.IndexByte\<close>: the index of the first occurrence of a byte, or -1.\<close>

definition IndexByte :: "string \<Rightarrow> char \<Rightarrow> int" where
  "IndexByte s c = (if c \<in> set s then int (length (takeWhile (\<lambda>x. x \<noteq> c) s)) else - 1)"

section \<open>Package policy: the data model\<close>

record PolicyKey =
  Namespace :: string
  Name :: string

text \<open>
  \<open>ParseKey\<close> splits at the first dot; \<open>s[:i]\<close> and \<open>s[i+1:]\<close> are \<open>take\<close> and \<open>drop\<close>.
\<close>

definition ParseKey :: "string \<Rightarrow> PolicyKey" where
  "ParseKey s0 =
     (let s = TrimSpace s0
      in if s = [] then \<lparr>Namespace = [], Name = []\<rparr>
         else let i = IndexByte s (CHR ''.'')
              in if i < 0 then \<lparr>Namespace = [], Name = s\<rparr>
                 else let ns = TrimSpace (take (nat i) s);
                          name = TrimSpace (drop (nat (i + 1)) s)
                      in if name = [] then \<lparr>Namespace = [], Name = s\<rparr>
                         else \<lparr>Namespace = ns, Name = name\<rparr>)"

definition PolicyKey_String :: "PolicyKey \<Rightarrow> string" where
  "PolicyKey_String k =
     (if Namespace k = [] then Name k
      else if Name k = [] then Namespace k
      else Namespace k @ ''.'' @ Name k)"

record BudgetRef =
  Budget_Name :: string
  Cost :: int

definition JitterNone :: string where "JitterNone = ''none''"
definition JitterFull :: string where "JitterFull = ''full''"
definition JitterEqual :: string where "JitterEqual = ''equal''"

record RetryPolicy =
  MaxAttempts :: int
  InitialBackoff :: duration
  MaxBackoff :: duration
  BackoffMultiplier :: float64
  Jitter :: string
  TimeoutPerAttempt :: duration
  OverallTimeout :: duration
  ClassifierName :: string
  Retry_Budget :: BudgetRef

record HedgePolicy =
  Hedge_Enabled :: bool
  MaxHedges :: int
  HedgeDelay :: duration
  TriggerName :: string
  CancelOnFirstTerminal :: bool
  Hedge_Budget :: BudgetRef

record CircuitPolicy =
  Circuit_Enabled :: bool
  Threshold :: int
  Cooldown :: duration

definition PolicySourceDefault :: string where
  "PolicySourceDefault = ''default''"

record NormalizationInfo =
  Changed :: bool
  ChangedFields :: "string list"

record Metadata =
  Source :: string
  Normalization :: NormalizationInfo

record EffectivePolicy =
  Key :: PolicyKey
  ID :: string
  Retry :: RetryPolicy
  Hedge :: HedgePolicy
  Circuit :: CircuitPolicy
  Meta :: Metadata

text \<open>The zero values of the structs (Go's \<open>EffectivePolicy{}\<close>).\<close>

definition zero_BudgetRef :: BudgetRef where
  "zero_BudgetRef = \<lparr>Budget_Name = [], Cost = 0\<rparr>"

definition zero_EffectivePolicy :: EffectivePolicy where
  "zero_EffectivePolicy =
     \<lparr>Key = \<lparr>Namespace = [], Name = []\<rparr>, ID = [],
      Retry = \<lparr>MaxAttempts = 0, InitialBackoff = 0, MaxBackoff = 0, BackoffMultiplier = Finite 0,
               Jitter = [], TimeoutPerAttempt = 0, OverallTimeout = 0, ClassifierName = [],
               Retry_Budget = zero_BudgetRef\<rparr>,
      Hedge = \<lparr>Hedge_Enabled = False, MaxHedges = 0, HedgeDelay = 0, TriggerName = [],
               CancelOnFirstTerminal = False, Hedge_Budget = zero_BudgetRef\<rparr>,
      Circuit = \<lparr>Circuit_Enabled = False, Threshold = 0, Cooldown = 0\<rparr>,
      Meta = \<lparr>Source = [], Normalization = \<lparr>Changed = False, ChangedFields = []\<rparr>\<rparr>\<rparr>"

definition DefaultPolicyFor :: "PolicyKey \<Rightarrow> EffectivePolicy" where
  "DefaultPolicyFor key =
     \<lparr>Key = key, ID = [],
      Retry = \<lparr>MaxAttempts = 3, InitialBackoff = 10 * Millisecond, MaxBackoff = 250 * Millisecond,
               BackoffMultiplier = Finite 2, Jitter = JitterNone, TimeoutPerAttempt = 0,
               OverallTimeout = 0, ClassifierName = [],
               Retry_Budget = \<lparr>Budget_Name = [], Cost = 1\<rparr>\<rparr>,
      Hedge = \<lparr>Hedge_Enabled = False, MaxHedges = 0, HedgeDelay = 0, TriggerName = [],
               CancelOnFirstTerminal = False, Hedge_Budget = \<lparr>Budget_Name = [], Cost = 1\<rparr>\<rparr>,
      Circuit = \<lparr>Circuit_Enabled = False, Threshold = 0, Cooldown = 0\<rparr>,
      Meta = \<lparr>Source = PolicySourceDefault,
              Normalization = \<lparr>Changed = False, ChangedFields = []\<rparr>\<rparr>\<rparr>"

subsection \<open>The hard guardrails\<close>

definition maxRetryAttempts :: int where "maxRetryAttempts = 10"
definition maxHedges :: int where "maxHedges = 3"
definition minBackoffFloor :: duration where "minBackoffFloor = 1 * Millisecond"
definition minHedgeDelayFloor :: duration where "minHedgeDelayFloor = 10 * Millisecond"
definition maxBackoffCeiling :: duration where "maxBackoffCeiling = 30 * Second"
definition minTimeoutFloor :: duration where "minTimeoutFloor = 1 * Millisecond"
definition maxBackoffMultiplier :: float64 where "maxBackoffMultiplier = Finite 10"
definition minCircuitThreshold :: int where "minCircuitThreshold = 1"
definition minCircuitCooldown :: duration where "minCircuitCooldown = 100 * Millisecond"

datatype error = NormalizeError string string

subsection \<open>Normalize\<close>

text \<open>
  \<open>markChanged\<close> is the closure of \<open>Normalize\<close>; \<open>norm\<close> points into the policy being
  normalized, so the closure is a function on that policy. A field path already in
  \<open>ChangedFields\<close> is not appended again.
\<close>

definition markChanged :: "string \<Rightarrow> EffectivePolicy \<Rightarrow> EffectivePolicy" where
  "markChanged field normalized =
     (let norm = Normalization (Meta normalized)
      in normalized\<lparr>Meta := (Meta normalized)\<lparr>Normalization :=
           \<lparr>Changed = True,
            ChangedFields = (if field \<in> set (ChangedFields norm) then ChangedFields norm
                             else ChangedFields norm @ [field])\<rparr>\<rparr>\<rparr>)"

text \<open>
  The body of \<open>Normalize\<close> is a sequence of blocks, one per field, each a run of
  \<open>if\<close> statements on the local copy \<open>normalized\<close>. Each block is a function from the
  copy before the block to the copy after it.
\<close>

definition normalize_max_attempts :: "EffectivePolicy \<Rightarrow> EffectivePolicy" where
  "normalize_max_attempts n0 =
     (let n1 = (if MaxAttempts (Retry n0) = 0
                then markChanged ''retry.max_attempts'' (n0\<lparr>Retry := (Retry n0)\<lparr>MaxAttempts := 3\<rparr>\<rparr>)
                else n0)
      in if MaxAttempts (Retry n1) < 1
         then markChanged ''retry.max_attempts'' (n1\<lparr>Retry := (Retry n1)\<lparr>MaxAttempts := 1\<rparr>\<rparr>)
         else if MaxAttempts (Retry n1) > maxRetryAttempts
         then markChanged ''retry.max_attempts''
                (n1\<lparr>Retry := (Retry n1)\<lparr>MaxAttempts := maxRetryAttempts\<rparr>\<rparr>)
         else n1)"

definition normalize_initial_backoff :: "EffectivePolicy \<Rightarrow> EffectivePolicy" where
  "normalize_initial_backoff n0 =
     (let n1 = (if InitialBackoff (Retry n0) \<le>s 0
                then markChanged ''retry.initial_backoff''
                       (n0\<lparr>Retry := (Retry n0)\<lparr>InitialBackoff := 10 * Millisecond\<rparr>\<rparr>)
                else n0)
      in if InitialBackoff (Retry n1) <s minBackoffFloor
         then markChanged ''retry.initial_backoff''
                (n1\<lparr>Retry := (Retry n1)\<lparr>InitialBackoff := minBackoffFloor\<rparr>\<rparr>)
         else n1)"

definition normalize_max_backoff :: "EffectivePolicy \<Rightarrow> EffectivePolicy" where
  "normalize_max_backoff n0 =
     (let n1 = (if MaxBackoff (Retry n0) \<le>s 0
                then markChanged ''retry.max_backoff''
                       (n0\<lparr>Retry := (Retry n0)\<lparr>MaxBackoff := 250 * Millisecond\<rparr>\<rparr>)
                else n0);
          n2 = (if maxBackoffCeiling <s MaxBackoff (Retry n1)
                then markChanged ''retry.max_backoff''
                       (n1\<lparr>Retry := (Retry n1)\<lparr>MaxBackoff := maxBackoffCeiling\<rparr>\<rparr>)
                else n1)
      in if MaxBackoff (Retry n2) <s InitialBackoff (Retry n2)
         then markChanged ''retry.max_backoff''
                (n2\<lparr>Retry := (Retry n2)\<lparr>MaxBackoff := InitialBackoff (Retry n2)\<rparr>\<rparr>)
         else n2)"

definition normalize_backoff_multiplier :: "EffectivePolicy \<Rightarrow> EffectivePolicy" where
  "normalize_backoff_multiplier n0 =
     (let n1 = (if f64_eq (BackoffMultiplier (Retry n0)) (Finite 0)
                then markChanged ''retry.backoff_multiplier''
                       (n0\<lparr>Retry := (Retry n0)\<lparr>BackoffMultiplier := Finite 2\<rparr>\<rparr>)
                else n0)
      in if f64_lt (BackoffMultiplier (Retry n1)) (Finite 1)
         then markChanged ''retry.backoff_multiplier''
                (n1\<lparr>Retry := (Retry n1)\<lparr>BackoffMultiplier := Finite 1\<rparr>\<rparr>)
         else if f64_lt maxBackoffMultiplier (BackoffMultiplier (Retry n1))
         then markChanged ''retry.backoff_multiplier''
                (n1\<lparr>Retry := (Retry n1)\<lparr>BackoffMultiplier := maxBackoffMultiplier\<rparr>\<rparr>)
         else n1)"

text \<open>The \<open>switch\<close> on the jitter kind: its \<open>default\<close> branch returns the typed error.\<close>

definition normalize_jitter :: "EffectivePolicy \<Rightarrow> error + EffectivePolicy" where
  "normalize_jitter n0 =
     (if Jitter (Retry n0) = []
      then Inr (markChanged ''retry.jitter'' (n0\<lparr>Retry := (Retry n0)\<lparr>Jitter := JitterNone\<rparr>\<rparr>))
      else if Jitter (Retry n0) = JitterNone \<or> Jitter (Retry n0) = JitterFull
              \<or> Jitter (Retry n0) = JitterEqual
      then Inr n0
      else Inl (NormalizeError ''retry.jitter'' (Jitter (Retry n0))))"

definition normalize_timeout_per_attempt :: "EffectivePolicy \<Rightarrow> EffectivePolicy" where
  "normalize_timeout_per_attempt n0 =
     (let n1 = (if TimeoutPerAttempt (Retry n0) <s 0
                then markChanged ''retry.timeout_per_attempt''
                       (n0\<lparr>Retry := (Retry n0)\<lparr>TimeoutPerAttempt := 0\<rparr>\<rparr>)
                else n0)
      in if 0 <s TimeoutPerAttempt (Retry n1) \<and> TimeoutPerAttempt (Retry n1) <s minTimeoutFloor
         then markChanged ''retry.timeout_per_attempt''
                (n1\<lparr>Retry := (Retry n1)\<lparr>TimeoutPerAttempt := minTimeoutFloor\<rparr>\<rparr>)
         else n1)"

definition normalize_overall_timeout :: "EffectivePolicy \<Rightarrow> EffectivePolicy" where
  "normalize_overall_timeout n0 =
     (let n1 = (if OverallTimeout (Retry n0) <s 0
                then markChanged ''retry.overall_timeout''
                       (n0\<lparr>Retry := (Retry n0)\<lparr>OverallTimeout := 0\<rparr>\<rparr>)
                else n0)
      in if 0 <s OverallTimeout (Retry n1) \<and> OverallTimeout (Retry n1) <s minTimeoutFloor
         then markChanged ''retry.overall_timeout''
                (n1\<lparr>Retry := (Retry n1)\<lparr>OverallTimeout := minTimeoutFloor\<rparr>\<rparr>)
         else n1)"

definition normalize_retry_budget_cost :: "EffectivePolicy \<Rightarrow> EffectivePolicy" where
  "normalize_retry_budget_cost n0 =
     (let n1 = (if Cost (Retry_Budget (Retry n0)) = 0
                then markChanged ''retry.budget.cost''
                       (n0\<lparr>Retry := (Retry n0)\<lparr>Retry_Budget :=
                             (Retry_Budget (Retry n0))\<lparr>Cost := 1\<rparr>\<rparr>\<rparr>)
                else n0)
      in if Cost (Retry_Budget (Retry n1)) < 1
         then markChanged ''retry.budget.cost''
                (n1\<lparr>Retry := (Retry n1)\<lparr>Retry_Budget := (Retry_Budget (Retry n1))\<lparr>Cost := 1\<rparr>\<rparr>\<rparr>)
         else n1)"

definition normalize_hedge_budget_cost :: "EffectivePolicy \<Rightarrow> EffectivePolicy" where
  "normalize_hedge_budget_cost n0 =
     (let n1 = (if Cost (Hedge_Budget (Hedge n0)) = 0
                then markChanged ''hedge.budget.cost''
                       (n0\<lparr>Hedge := (Hedge n0)\<lparr>Hedge_Budget :=
                             (Hedge_Budget (Hedge n0))\<lparr>Cost := 1\<rparr>\<rparr>\<rparr>)
                else n0)
      in if Cost (Hedge_Budget (Hedge n1)) < 1
         then markChanged ''hedge.budget.cost''
                (n1\<lparr>Hedge := (Hedge n1)\<lparr>Hedge_Budget := (Hedge_Budget (Hedge n1))\<lparr>Cost := 1\<rparr>\<rparr>\<rparr>)
         else n1)"

definition normalize_max_hedges :: "EffectivePolicy \<Rightarrow> EffectivePolicy" where
  "normalize_max_hedges n0 =
     (let n1 = (if MaxHedges (Hedge n0) = 0
                then markChanged ''hedge.max_hedges'' (n0\<lparr>Hedge := (Hedge n0)\<lparr>MaxHedges := 2\<rparr>\<rparr>)
                else n0)
      in if MaxHedges (Hedge n1) < 1
         then markChanged ''hedge.max_hedges'' (n1\<lparr>Hedge := (Hedge n1)\<lparr>MaxHedges := 1\<rparr>\<rparr>)
         else if MaxHedges (Hedge n1) > maxHedges
         then markChanged ''hedge.max_hedges'' (n1\<lparr>Hedge := (Hedge n1)\<lparr>MaxHedges := maxHedges\<rparr>\<rparr>)
         else n1)"

definition normalize_hedge_delay :: "EffectivePolicy \<Rightarrow> EffectivePolicy" where
  "normalize_hedge_delay n0 =
     (let n1 = (if HedgeDelay (Hedge n0) \<le>s 0
                then markChanged ''hedge.hedge_delay''
                       (n0\<lparr>Hedge := (Hedge n0)\<lparr>HedgeDelay := 200 * Millisecond\<rparr>\<rparr>)
                else n0)
      in if HedgeDelay (Hedge n1) <s minHedgeDelayFloor
         then markChanged ''hedge.hedge_delay''
                (n1\<lparr>Hedge := (Hedge n1)\<lparr>HedgeDelay := minHedgeDelayFloor\<rparr>\<rparr>)
         else n1)"

definition normalize_circuit_threshold :: "EffectivePolicy \<Rightarrow> EffectivePolicy" where
  "normalize_circuit_threshold n0 =
     (let n1 = (if Threshold (Circuit n0) \<le> 0
                then markChanged ''circuit.threshold''
                       (n0\<lparr>Circuit := (Circuit n0)\<lparr>Threshold := 5\<rparr>\<rparr>)
                else n0)
      in if Threshold (Circuit n1) < minCircuitThreshold
         then markChanged ''circuit.threshold''
                (n1\<lparr>Circuit := (Circuit n1)\<lparr>Threshold := minCircuitThreshold\<rparr>\<rparr>)
         else n1)"

definition normalize_circuit_cooldown :: "EffectivePolicy \<Rightarrow> EffectivePolicy" where
  "normalize_circuit_cooldown n0 =
     (let n1 = (if Cooldown (Circuit n0) \<le>s 0
                then markChanged ''circuit.cooldown''
                       (n0\<lparr>Circuit := (Circuit n0)\<lparr>Cooldown := 10 * Second\<rparr>\<rparr>)
                else n0)
      in if Cooldown (Circuit n1) <s minCircuitCooldown
         then markChanged ''circuit.cooldown''
                (n1\<lparr>Circuit := (Circuit n1)\<lparr>Cooldown := minCircuitCooldown\<rparr>\<rparr>)
         else n1)"

text \<open>
  \<open>Normalize\<close> itself: the blocks in source order, the error return of the jitter
  switch, and the two early returns (hedging disabled; circuit breaking disabled, which
  is only looked at when hedging is enabled).
\<close>

definition Normalize :: "EffectivePolicy \<Rightarrow> error + EffectivePolicy" where
  "Normalize p =
     (case normalize_jitter
             (normalize_backoff_multiplier
               (normalize_max_backoff
                 (normalize_initial_backoff
                   (normalize_max_attempts p)))) of
        Inl e \<Rightarrow> Inl e
      | Inr n5 \<Rightarrow>
          (let n9 = normalize_hedge_budget_cost
                      (normalize_retry_budget_cost
                        (normalize_overall_timeout
                          (normalize_timeout_per_attempt n5)))
           in if \<not> Hedge_Enabled (Hedge n9) then Inr n9
              else let n11 = normalize_hedge_delay (normalize_max_hedges n9)
                   in if \<not> Circuit_Enabled (Circuit n11) then Inr n11
                      else Inr (normalize_circuit_cooldown (normalize_circuit_threshold n11))))"

subsection \<open>Options, \<open>New\<close> and \<open>NewFromKey\<close>\<close>

text \<open>
  An \<open>Option\<close> is a function that updates the policy it is given a pointer to; here it
  is a function that returns (a \<open>nil\<close> option or one that panics makes \<open>New\<close> panic). Some
  of the options of the package follow.
\<close>

type_synonym Option = "EffectivePolicy \<Rightarrow> EffectivePolicy"

definition MaxAttempts_opt :: "int \<Rightarrow> Option" where
  "MaxAttempts_opt n p = p\<lparr>Retry := (Retry p)\<lparr>MaxAttempts := n\<rparr>\<rparr>"

definition Backoff_opt :: "duration \<Rightarrow> duration \<Rightarrow> float64 \<Rightarrow> Option" where
  "Backoff_opt initial mx multiplier p =
     p\<lparr>Retry := (Retry p)\<lparr>InitialBackoff := initial, MaxBackoff := mx,
                             BackoffMultiplier := multiplier\<rparr>\<rparr>"

definition Jitter_opt :: "string \<Rightarrow> Option" where
  "Jitter_opt j p = p\<lparr>Retry := (Retry p)\<lparr>Jitter := j\<rparr>\<rparr>"

definition EnableHedging :: Option where
  "EnableHedging p =
     (let p1 = p\<lparr>Hedge := (Hedge p)\<lparr>Hedge_Enabled := True\<rparr>\<rparr>;
          p2 = (if MaxHedges (Hedge p1) = 0 then p1\<lparr>Hedge := (Hedge p1)\<lparr>MaxHedges := 2\<rparr>\<rparr>
                else p1)
      in if HedgeDelay (Hedge p2) = 0
         then p2\<lparr>Hedge := (Hedge p2)\<lparr>HedgeDelay := 200 * Millisecond\<rparr>\<rparr>
         else p2)"

text \<open>The loop \<open>for _, opt := range opts { opt(&p) }\<close>.\<close>

fun applyOptions :: "Option list \<Rightarrow> EffectivePolicy \<Rightarrow> EffectivePolicy" where
  "applyOptions [] p = p"
| "applyOptions (opt # opts) p = applyOptions opts (opt p)"

text \<open>
  When \<open>Normalize\<close> returns an error its policy result is the zero policy; the second call
  of \<open>Normalize\<close> in \<open>NewFromKey\<close> drops the error.
\<close>

definition NewFromKey :: "PolicyKey \<Rightarrow> Option list \<Rightarrow> EffectivePolicy" where
  "NewFromKey key opts =
     (let p = applyOptions opts (DefaultPolicyFor key)
      in case Normalize p of
           Inr normalized \<Rightarrow> normalized
         | Inl err \<Rightarrow>
             (case Normalize (DefaultPolicyFor key) of
                Inr normalized \<Rightarrow> normalized
              | Inl err2 \<Rightarrow> zero_EffectivePolicy))"

definition New :: "string \<Rightarrow> Option list \<Rightarrow> EffectivePolicy" where
  "New key opts = NewFromKey (ParseKey key) opts"

subsection \<open>What \<open>Normalize\<close> leaves settled\<close>

text \<open>
  The conditions under which no \<open>if\<close> of \<open>Normalize\<close> changes anything any more. The
  maximal backoff may stay above the ceiling, namely when it equals an initial backoff
  above the ceiling; the field path is then already recorded.
\<close>

definition max_backoff_settled :: "EffectivePolicy \<Rightarrow> bool" where
  "max_backoff_settled n =
     (\<not> MaxBackoff (Retry n) \<le>s 0
      \<and> \<not> MaxBackoff (Retry n) <s InitialBackoff (Retry n)
      \<and> (\<not> maxBackoffCeiling <s MaxBackoff (Retry n)
          \<or> MaxBackoff (Retry n) = InitialBackoff (Retry n)
            \<and> Changed (Normalization (Meta n))
            \<and> ''retry.max_backoff'' \<in> set (ChangedFields (Normalization (Meta n)))))"

definition retry_settled :: "EffectivePolicy \<Rightarrow> bool" where
  "retry_settled n =
     (1 \<le> MaxAttempts (Retry n) \<and> MaxAttempts (Retry n) \<le> 10
      \<and> \<not> InitialBackoff (Retry n) <s minBackoffFloor
      \<and> max_backoff_settled n
      \<and> \<not> f64_eq (BackoffMultiplier (Retry n)) (Finite 0)
      \<and> \<not> f64_lt (BackoffMultiplier (Retry n)) (Finite 1)
      \<and> \<not> f64_lt maxBackoffMultiplier (BackoffMultiplier (Retry n))
      \<and> (Jitter (Retry n) = JitterNone \<or> Jitter (Retry n) = JitterFull
          \<or> Jitter (Retry n) = JitterEqual)
      \<and> \<not> TimeoutPerAttempt (Retry n) <s 0
      \<and> \<not> (0 <s TimeoutPerAttempt (Retry n) \<and> TimeoutPerAttempt (Retry n) <s minTimeoutFloor)
      \<and> \<not> OverallTimeout (Retry n) <s 0
      \<and> \<not> (0 <s OverallTimeout (Retry n) \<and> OverallTimeout (Retry n) <s minTimeoutFloor)
      \<and> 1 \<le> Cost (Retry_Budget (Retry n))
      \<and> 1 \<le> Cost (Hedge_Budget (Hedge n)))"

definition hedge_settled :: "EffectivePolicy \<Rightarrow> bool" where
  "hedge_settled n =
     (1 \<le> MaxHedges (Hedge n) \<and> MaxHedges (Hedge n) \<le> 3
      \<and> \<not> HedgeDelay (Hedge n) <s minHedgeDelayFloor)"

definition circuit_settled :: "EffectivePolicy \<Rightarrow> bool" where
  "circuit_settled n =
     (1 \<le> Threshold (Circuit n) \<and> \<not> Cooldown (Circuit n) <s minCircuitCooldown)"

definition settled :: "EffectivePolicy \<Rightarrow> bool" where
  "settled n =
     (retry_settled n
      \<and> (Hedge_Enabled (Hedge n) \<longrightarrow>
            hedge_settled n \<and> (Circuit_Enabled (Circuit n) \<longrightarrow> circuit_settled n)))"

section \<open>Package hedge: the fixed-delay trigger\<close>

text \<open>
  The fields of \<open>hedge.HedgeState\<close> that \<open>doRetryGroup\<close> fills in. \<open>AttemptStart\<close> is a clock
  reading, kept as a number of nanoseconds.
\<close>

record HedgeState =
  AttemptStart :: int
  AttemptsLaunched :: int
  State_MaxHedges :: int
  Elapsed :: duration

record FixedDelayTrigger =
  Delay :: duration

definition ShouldSpawnHedge :: "FixedDelayTrigger \<Rightarrow> HedgeState \<Rightarrow> bool \<times> duration" where
  "ShouldSpawnHedge t state =
     (if Elapsed state <s Delay t then (False, Delay t - Elapsed state)
      else if AttemptsLaunched state > 1 then (False, 0)
      else (True, 0))"

text \<open>
  A \<open>hedge.Trigger\<close> is anything with a \<open>ShouldSpawnHedge\<close> method; the registry maps
  names to triggers and \<open>Get\<close> is a map lookup.
\<close>

type_synonym Trigger = "HedgeState \<Rightarrow> bool \<times> duration"

type_synonym Registry = "string \<rightharpoonup> Trigger"

definition Registry_Get :: "Registry \<Rightarrow> string \<Rightarrow> Trigger option" where
  "Registry_Get r name = r name"

section \<open>Package retry: one retry group\<close>

text \<open>
  Modelled from the spec: package \<open>classify\<close> is not among the available sources of the
  repository. An outcome has one of four kinds, a reason, attributes and an optional
  backoff override.
\<close>

datatype OutcomeKind = OutcomeSuccess | OutcomeRetryable | OutcomeNonRetryable | OutcomeAbort

record Outcome =
  Kind :: OutcomeKind
  Reason :: string
  Attributes :: "(string \<times> string) list"
  BackoffOverride :: duration

text \<open>Package budget: the attempt kinds, the decision and the standard reasons.\<close>

datatype AttemptKind = KindRetry | KindHedge

text \<open>
  \<open>Release\<close> is a function value that may be \<open>nil\<close>: the field says whether a handle is
  there; calling it is an effect of the attempt.
\<close>

record Decision =
  Allowed :: bool
  Decision_Reason :: string
  Release :: bool

definition ReasonAllowed :: string where "ReasonAllowed = ''allowed''"
definition ReasonNoBudget :: string where "ReasonNoBudget = ''no_budget''"
definition ReasonBudgetNotFound :: string where "ReasonBudgetNotFound = ''budget_not_found''"
definition ReasonBudgetDenied :: string where "ReasonBudgetDenied = ''budget_denied''"
definition ReasonPanicInBudget :: string where "ReasonPanicInBudget = ''panic_in_budget''"
definition ReasonBudgetRegistryNil :: string where
  "ReasonBudgetRegistryNil = ''budget_registry_nil''"
definition ReasonBudgetNil :: string where "ReasonBudgetNil = ''budget_nil''"

text \<open>Go \<open>error\<close> values that are not normalization errors carry their message.\<close>

datatype go_error = errorString string

text \<open>Package observe: attempt records and the attempt information put into the context.\<close>

record AttemptRecord =
  Attempt :: int
  StartTime :: int
  EndTime :: int
  IsHedge :: bool
  HedgeIndex :: int
  Outcome :: Outcome
  Err :: "go_error option"
  Backoff :: duration
  BudgetAllowed :: bool
  BudgetReason :: string

record AttemptInfo =
  RetryIndex :: int
  Info_Attempt :: int
  Info_IsHedge :: bool
  Info_HedgeIndex :: int
  PolicyID :: string

text \<open>The value of an attempt has type \<open>any\<close>: \<open>None\<close> is \<open>nil\<close>.\<close>

record 'v groupResult =
  res_val :: "'v option"
  res_err :: "go_error option"
  res_outcome :: Outcome
  res_start :: int
  res_end :: int
  res_isHedge :: bool
  res_idx :: int
  res_panicErr :: "go_error option"

subsection \<open>The attempt goroutine started by \<open>launch\<close>\<close>

text \<open>
  What an attempt calls besides the code of \<open>doRetryGroup\<close>: the executor's clock (the
  k-th reading made by this attempt), its budget gate \<open>allowAttempt\<close>, the user operation
  \<open>op\<close>, and classification. None of them is among the available sources, so they are
  parameters. \<open>recordAttempt\<close>, the observer and the results channel are parameters of
  \<open>doRetryGroup\<close> as well: what the attempt does to them is kept as a trace of effects, in
  program order. An operation or a classifier that panics is not modelled: \<open>op\<close> returns.
\<close>

record 'v GroupEnv =
  clock :: "nat \<Rightarrow> int"
  allowAttempt :: "PolicyKey \<Rightarrow> BudgetRef \<Rightarrow> int \<Rightarrow> AttemptKind \<Rightarrow> Decision \<times> bool"
  op :: "AttemptInfo \<Rightarrow> 'v option \<times> go_error option"
  classifyWithRecovery :: "'v option \<Rightarrow> go_error option \<Rightarrow> PolicyKey \<Rightarrow> Outcome \<times> go_error option"
  annotateClassifierFallback :: "Outcome \<Rightarrow> Outcome"

datatype 'v effect =
    ActiveAttemptsAdd int
  | AttemptsLaunchedAdd int
  | RecordAttempt AttemptRecord
  | Send "'v groupResult"
  | OnHedgeSpawn AttemptInfo int bool int
  | CallOp AttemptInfo
  | CancelAttempt
  | CallRelease

definition attemptGoroutine ::
  "'v GroupEnv \<Rightarrow> PolicyKey \<Rightarrow> EffectivePolicy \<Rightarrow> int \<Rightarrow> duration \<Rightarrow> int \<Rightarrow> bool \<Rightarrow> 'v effect list"
where
  "attemptGoroutine e key pol retryIdx lastBackoff idx isHedge =
     (let start = clock e 0;
          budgetKind = (if isHedge then KindHedge else KindRetry);
          budgetRef = (if isHedge then Hedge_Budget (Hedge pol) else Retry_Budget (Retry pol));
          (decision, allowed) = allowAttempt e key budgetRef retryIdx budgetKind
      in if \<not> allowed then
           (let rec = \<lparr>Attempt = retryIdx, StartTime = start, EndTime = clock e 1,
                       IsHedge = isHedge, HedgeIndex = idx,
                       Outcome = \<lparr>Kind = OutcomeAbort, Reason = Decision_Reason decision,
                                  Attributes = [], BackoffOverride = 0\<rparr>,
                       Err = None, Backoff = (if isHedge then 0 else lastBackoff),
                       BudgetAllowed = False, BudgetReason = Decision_Reason decision\<rparr>
            in [RecordAttempt rec,
                Send \<lparr>res_val = None, res_err = Some (errorString (Decision_Reason decision)),
                      res_outcome = \<lparr>Kind = OutcomeAbort, Reason = Decision_Reason decision,
                                      Attributes = [], BackoffOverride = 0\<rparr>,
                      res_start = start, res_end = clock e 2, res_isHedge = isHedge,
                      res_idx = idx, res_panicErr = None\<rparr>,
                ActiveAttemptsAdd (- 1)])
         else
           (let info = \<lparr>RetryIndex = retryIdx, Info_Attempt = retryIdx, Info_IsHedge = isHedge,
                        Info_HedgeIndex = idx, PolicyID = ID pol\<rparr>;
                (val, err) = op e info;
                endt = clock e 1;
                (outcome0, panicErr) = classifyWithRecovery e val err key;
                outcome = annotateClassifierFallback e outcome0;
                rec = \<lparr>Attempt = retryIdx, StartTime = start, EndTime = endt,
                       IsHedge = isHedge, HedgeIndex = idx, Outcome = outcome, Err = err,
                       Backoff = (if isHedge then 0 else lastBackoff),
                       BudgetAllowed = True, BudgetReason = Decision_Reason decision\<rparr>;
                res = \<lparr>res_val = val, res_err = err, res_outcome = outcome, res_start = start,
                       res_end = endt, res_isHedge = isHedge, res_idx = idx,
                       res_panicErr = panicErr\<rparr>
            in (if isHedge then [OnHedgeSpawn info retryIdx True idx] else [])
               @ [CallOp info, RecordAttempt rec, Send res]
               @ (if 0 <s TimeoutPerAttempt (Retry pol) then [CancelAttempt] else [])
               @ (if Release decision then [CallRelease] else [])
               @ [ActiveAttemptsAdd (- 1)]))"

text \<open>\<open>launch\<close>: count the attempt, then start its goroutine.\<close>

definition launch ::
  "'v GroupEnv \<Rightarrow> PolicyKey \<Rightarrow> EffectivePolicy \<Rightarrow> int \<Rightarrow> duration \<Rightarrow> int \<Rightarrow> bool \<Rightarrow> 'v effect list"
where
  "launch e key pol retryIdx lastBackoff idx isHedge =
     [ActiveAttemptsAdd 1, AttemptsLaunchedAdd 1]
     @ attemptGoroutine e key pol retryIdx lastBackoff idx isHedge"

fun recordsOf :: "'v effect list \<Rightarrow> AttemptRecord list" where
  "recordsOf [] = []"
| "recordsOf (RecordAttempt r # es) = r # recordsOf es"
| "recordsOf (x # es) = recordsOf es"

fun sentOf :: "'v effect list \<Rightarrow> 'v groupResult list" where
  "sentOf [] = []"
| "sentOf (Send r # es) = r # sentOf es"
| "sentOf (x # es) = sentOf es"

fun opCalls :: "'v effect list \<Rightarrow> AttemptInfo list" where
  "opCalls [] = []"
| "opCalls (CallOp i # es) = i # opCalls es"
| "opCalls (x # es) = opCalls es"

subsection \<open>The hedge spawner\<close>

text \<open>
  The spawner goroutine is a loop around a \<open>select\<close>. Its run is determined by the cases
  the \<open>select\<close> takes, in order: the group context is done, or the ticker fires (and
  the clock then shows some elapsed time). The function returns the calls of \<open>launch\<close>
  the spawner makes, as pairs of hedge index and \<open>isHedge\<close>; when the list of cases is
  used up the spawner is still waiting. The trigger's second answer, the time to the next
  check, only resets the ticker: it changes when the next tick comes, not what the loop
  does with it.
\<close>

datatype spawner_event = GroupDone | Tick duration

fun hedgeLoop :: "Trigger \<Rightarrow> int \<Rightarrow> int \<Rightarrow> int \<Rightarrow> spawner_event list \<Rightarrow> (int \<times> bool) list" where
  "hedgeLoop trig maxH start hedgesLaunched [] = []"
| "hedgeLoop trig maxH start hedgesLaunched (GroupDone # evs) = []"
| "hedgeLoop trig maxH start hedgesLaunched (Tick elapsed # evs) =
     (if hedgesLaunched \<ge> maxH then []
      else if fst (trig \<lparr>AttemptStart = start, AttemptsLaunched = 1 + hedgesLaunched,
                         State_MaxHedges = maxH, Elapsed = elapsed\<rparr>)
      then (hedgesLaunched + 1, True) # hedgeLoop trig maxH start (hedgesLaunched + 1) evs
      else hedgeLoop trig maxH start hedgesLaunched evs)"

text \<open>
  The trigger of a group: the registered one when a name is set and found, the fixed-delay
  trigger on \<open>HedgeDelay\<close> otherwise. \<open>triggers\<close> is \<open>None\<close> for a \<open>nil\<close> registry.
\<close>

definition resolveTrigger :: "Registry option \<Rightarrow> EffectivePolicy \<Rightarrow> Trigger" where
  "resolveTrigger triggers pol =
     (let trig = (if TriggerName (Hedge pol) \<noteq> [] \<and> triggers \<noteq> None
                  then (case triggers of None \<Rightarrow> None
                        | Some r \<Rightarrow> Registry_Get r (TriggerName (Hedge pol)))
                  else None)
      in case trig of
           None \<Rightarrow> ShouldSpawnHedge \<lparr>Delay = HedgeDelay (Hedge pol)\<rparr>
         | Some t \<Rightarrow> t)"

definition groupMaxHedges :: "EffectivePolicy \<Rightarrow> int" where
  "groupMaxHedges pol = (if Hedge_Enabled (Hedge pol) then MaxHedges (Hedge pol) else 0)"

definition hedgeSpawner ::
  "Registry option \<Rightarrow> EffectivePolicy \<Rightarrow> int \<Rightarrow> spawner_event list \<Rightarrow> (int \<times> bool) list"
where
  "hedgeSpawner triggers pol start evs =
     (if \<not> Hedge_Enabled (Hedge pol) then []
      else hedgeLoop (resolveTrigger triggers pol) (groupMaxHedges pol) start 0 evs)"

text \<open>
  All calls of \<open>launch\<close> in one run of \<open>doRetryGroup\<close>, in launch order: the primary, then
  the hedges. Making the results channel panics when its capacity \<open>1 + maxHedges\<close> is
  negative; nothing is launched then. (In Go the sum wraps around at the largest \<open>int\<close>,
  and a capacity too large to allocate panics as well; neither concerns a policy that
  \<open>Normalize\<close> returns, where \<open>maxHedges\<close> is at most 3.)
\<close>

definition groupLaunches ::
  "Registry option \<Rightarrow> EffectivePolicy \<Rightarrow> int \<Rightarrow> spawner_event list \<Rightarrow> string + (int \<times> bool) list"
where
  "groupLaunches triggers pol start evs =
     (if 1 + groupMaxHedges pol < 0 then Inl ''makechan: size out of range''
      else Inr ((0, False) # hedgeSpawner triggers pol start evs))"

subsection \<open>Waiting for results\<close>

text \<open>
  The last loop of \<open>doRetryGroup\<close> is again a \<open>select\<close>, and its run is determined by the
  cases the \<open>select\<close> takes, in order (when several cases are ready Go takes any of
  them): a result is received from the channel (and, when the loop gets that far, the
  counter of active attempts is read, with some value), or the caller's context is done,
  with error \<open>ctx.Err()\<close>. The function returns what \<open>doRetryGroup\<close> returns, or \<open>None\<close>
  while the loop is still waiting. \<open>lastRel\<close> starts as the zero value, here \<open>None\<close>.
\<close>

datatype 'v wait_event = Result "'v groupResult" int | CtxDone go_error

fun waitLoop ::
  "bool \<Rightarrow> 'v groupResult option \<Rightarrow> int \<Rightarrow> 'v wait_event list
   \<Rightarrow> ('v option \<times> go_error option \<times> Outcome \<times> bool) option"
where
  "waitLoop cancelOnFirstTerminal lastRel failures [] = None"
| "waitLoop cancelOnFirstTerminal lastRel failures (Result res active # evs) =
     (if Kind (res_outcome res) = OutcomeSuccess
      then Some (res_val res, None, res_outcome res, True)
      else if cancelOnFirstTerminal
              \<and> (Kind (res_outcome res) = OutcomeNonRetryable
                  \<or> Kind (res_outcome res) = OutcomeAbort)
      then Some (res_val res, res_err res, res_outcome res, False)
      else if active = 0
      then Some (res_val res, res_err res, res_outcome res, False)
      else waitLoop cancelOnFirstTerminal (Some res) (failures + 1) evs)"
| "waitLoop cancelOnFirstTerminal lastRel failures (CtxDone ctxErr # evs) =
     Some (None, Some ctxErr,
           \<lparr>Kind = OutcomeAbort, Reason = ''context_canceled'', Attributes = [],
            BackoffOverride = 0\<rparr>, False)"

definition doRetryGroup ::
  "EffectivePolicy \<Rightarrow> 'v wait_event list \<Rightarrow> ('v option \<times> go_error option \<times> Outcome \<times> bool) option"
where
  "doRetryGroup pol evs = waitLoop (CancelOnFirstTerminal (Hedge pol)) None 0 evs"

subsection \<open>The attempt records of a group and of a call\<close>

text \<open>
  One run of \<open>doRetryGroup\<close>, as far as its attempts go: the environment each attempt
  runs in (by hedge index), the backoff before the group, the clock reading at the start
  of the hedge loop, and the cases the spawner's \<open>select\<close> takes. \<open>groupRecords\<close> are the
  records the attempts of the run pass to \<open>recordAttempt\<close>, in launch order.
\<close>

record 'v GroupRun =
  run_env :: "int \<Rightarrow> 'v GroupEnv"
  run_lastBackoff :: duration
  run_start :: int
  run_ticks :: "spawner_event list"

definition groupRecords ::
  "Registry option \<Rightarrow> PolicyKey \<Rightarrow> EffectivePolicy \<Rightarrow> int \<Rightarrow> 'v GroupRun \<Rightarrow> AttemptRecord list"
where
  "groupRecords triggers key pol retryIdx run =
     (case groupLaunches triggers pol (run_start run) (run_ticks run) of
        Inl panic \<Rightarrow> []
      | Inr ls \<Rightarrow>
          concat (map (\<lambda>(idx, isHedge).
                         recordsOf (launch (run_env run idx) key pol retryIdx
                                      (run_lastBackoff run) idx isHedge)) ls))"


subsection \<open>Concrete runs\<close>

text \<open>
  A key, a policy with hedging enabled (the default policy for the key with the option
  \<open>EnableHedging\<close>: at most two hedges, 200 ms hedge delay, \<open>CancelOnFirstTerminal\<close>
  false), environments and results for the examples below: an operation that always fails
  with a retryable error under a budget that allows every attempt; the same under a
  budget gate that denies with \<open>panic_in_budget\<close>; a group whose ticker fires 25 ms and
  225 ms after the start; and three results as they arrive on the results channel.
\<close>

definition svc_Method :: PolicyKey where
  "svc_Method = \<lparr>Namespace = ''svc'', Name = ''Method''\<rparr>"

definition hedged_policy :: EffectivePolicy where
  "hedged_policy = EnableHedging (DefaultPolicyFor svc_Method)"

definition failing_op_env :: "string GroupEnv" where
  "failing_op_env =
     \<lparr>clock = (\<lambda>k. int k),
      allowAttempt = (\<lambda>key ref attemptIdx kind.
         (\<lparr>Allowed = True, Decision_Reason = ReasonAllowed, Release = False\<rparr>, True)),
      op = (\<lambda>info. (None, Some (errorString ''connection refused''))),
      classifyWithRecovery = (\<lambda>val err key.
         (\<lparr>Kind = OutcomeRetryable, Reason = ''default_retry'', Attributes = [],
           BackoffOverride = 0\<rparr>, None)),
      annotateClassifierFallback = (\<lambda>outcome. outcome)\<rparr>"

definition panicking_budget_env :: "string GroupEnv" where
  "panicking_budget_env =
     failing_op_env\<lparr>allowAttempt := (\<lambda>key ref attemptIdx kind.
         (\<lparr>Allowed = False, Decision_Reason = ReasonPanicInBudget, Release = False\<rparr>, False))\<rparr>"

definition hedged_run :: "string GroupRun" where
  "hedged_run =
     \<lparr>run_env = (\<lambda>idx. failing_op_env), run_lastBackoff = 0, run_start = 0,
      run_ticks = [Tick (25 * Millisecond), Tick (225 * Millisecond)]\<rparr>"

definition retryable_result :: "string groupResult" where
  "retryable_result =
     \<lparr>res_val = None, res_err = Some (errorString ''connection refused''),
      res_outcome = \<lparr>Kind = OutcomeRetryable, Reason = ''default_retry'', Attributes = [],
                     BackoffOverride = 0\<rparr>,
      res_start = 225000000, res_end = 400000000, res_isHedge = True, res_idx = 1,
      res_panicErr = None\<rparr>"

definition nonretryable_result :: "string groupResult" where
  "nonretryable_result =
     \<lparr>res_val = None, res_err = Some (errorString ''invalid argument''),
      res_outcome = \<lparr>Kind = OutcomeNonRetryable, Reason = ''validation'', Attributes = [],
                     BackoffOverride = 0\<rparr>,
      res_start = 0, res_end = 300000000, res_isHedge = False, res_idx = 0,
      res_panicErr = None\<rparr>"


section \<open>The fixed-delay trigger\<close>

lemma hedgeLoop_fixed_delay_after_first:
  "1 \<le> h \<Longrightarrow> hedgeLoop (ShouldSpawnHedge t) m s h evs = []"
proof (induction evs)
  case Nil
  then show ?case by simp
next
  case (Cons ev evs)
  then show ?case by (cases ev) (simp_all add: ShouldSpawnHedge_def)
qed

lemma hedgeLoop_fixed_delay_at_most_one:
  "length (hedgeLoop (ShouldSpawnHedge t) m s 0 evs) \<le> 1"
proof (induction evs)
  case Nil
  then show ?case by simp
next
  case (Cons ev evs)
  show ?case
  proof (cases ev)
    case GroupDone
    then show ?thesis by simp
  next
    case (Tick el)
    then show ?thesis
      using Cons.IH hedgeLoop_fixed_delay_after_first [of 1 t m s evs] by simp
  qed
qed

text \<open>
  Claim C8. \<open>FixedDelayTrigger.ShouldSpawnHedge\<close> is a function of the trigger and the hedge
  state alone. Before the delay has elapsed it answers no and asks to be asked again after
  \<open>Delay - Elapsed\<close>; from then on it answers yes exactly when at most one attempt (the
  primary) has been launched, and its next-check is zero either way. Hence a spawner that
  runs on this trigger launches at most one hedge in a retry group, whatever the maximal
  number of hedges is; so does the spawner of a group whose trigger is the default one
  (no registry), whatever the policy.
\<close>

theorem FixedDelayTrigger_ShouldSpawnHedge:
  "ShouldSpawnHedge t st =
     (if Elapsed st <s Delay t then (False, Delay t - Elapsed st)
      else (AttemptsLaunched st \<le> 1, 0))
   \<and> length (hedgeLoop (ShouldSpawnHedge t) maxH start 0 evs) \<le> 1
   \<and> length (hedgeSpawner None pol start evs) \<le> 1"
proof -
  have "resolveTrigger None pol = ShouldSpawnHedge \<lparr>Delay = HedgeDelay (Hedge pol)\<rparr>"
    by (simp add: resolveTrigger_def)
  then have "length (hedgeSpawner None pol start evs) \<le> 1"
    using hedgeLoop_fixed_delay_at_most_one
      [of "\<lparr>Delay = HedgeDelay (Hedge pol)\<rparr>" "groupMaxHedges pol" start evs]
    by (simp add: hedgeSpawner_def)
  then show ?thesis
    using hedgeLoop_fixed_delay_at_most_one [of t maxH start evs]
    by (simp add: ShouldSpawnHedge_def)
qed

section \<open>Keys: \<open>ParseKey\<close> and \<open>String\<close>\<close>

lemma spaceRunes_nonempty: "e \<in> set spaceRunes \<Longrightarrow> e \<noteq> []"
  by (auto simp add: spaceRunes_def)

lemma spaceRunes_no_dot: "e \<in> set spaceRunes \<Longrightarrow> CHR ''.'' \<notin> set e"
  by (auto simp add: spaceRunes_def)

lemma leadingSpace_zero_iff: "leadingSpace s = 0 \<longleftrightarrow> (\<forall>e \<in> set spaceRunes. \<not> prefix e s)"
proof (cases "find (\<lambda>e. prefix e s) spaceRunes")
  case None
  then have "leadingSpace s = 0" by (simp add: leadingSpace_def)
  moreover from None have "\<forall>e \<in> set spaceRunes. \<not> prefix e s"
    by (simp add: find_None_iff)
  ultimately show ?thesis by simp
next
  case (Some e)
  then have "e \<in> set spaceRunes" and "prefix e s"
    by (auto simp add: find_Some_iff)
  with Some spaceRunes_nonempty [of e] show ?thesis by (auto simp add: leadingSpace_def)
qed

lemma trailingSpace_zero_iff: "trailingSpace s = 0 \<longleftrightarrow> (\<forall>e \<in> set spaceRunes. \<not> suffix e s)"
proof (cases "find (\<lambda>e. suffix e s) spaceRunes")
  case None
  then have "trailingSpace s = 0" by (simp add: trailingSpace_def)
  moreover from None have "\<forall>e \<in> set spaceRunes. \<not> suffix e s"
    by (simp add: find_None_iff)
  ultimately show ?thesis by simp
next
  case (Some e)
  then have "e \<in> set spaceRunes" and "suffix e s"
    by (auto simp add: find_Some_iff)
  with Some spaceRunes_nonempty [of e] show ?thesis by (auto simp add: trailingSpace_def)
qed

lemma TrimLeft_length: "length (TrimLeft s) \<le> length s"
proof (induction s rule: TrimLeft.induct)
  case (1 s)
  show ?case
  proof (cases "leadingSpace s = 0")
    case True
    then show ?thesis by (simp add: TrimLeft.simps)
  next
    case False
    with "1.IH" have "length (TrimLeft (drop (leadingSpace s) s)) \<le> length s - leadingSpace s"
      by simp
    with False show ?thesis by (subst TrimLeft.simps) simp
  qed
qed

lemma TrimRight_length: "length (TrimRight s) \<le> length s"
proof (induction s rule: TrimRight.induct)
  case (1 s)
  show ?case
  proof (cases "trailingSpace s = 0")
    case True
    then show ?thesis by (simp add: TrimRight.simps)
  next
    case False
    with "1.IH" have "length (TrimRight (take (length s - trailingSpace s) s)) \<le> length s - trailingSpace s"
      by simp
    with False show ?thesis by (subst TrimRight.simps) simp
  qed
qed

lemma TrimLeft_shorter: 
  assumes "leadingSpace s \<noteq> 0" shows "length (TrimLeft s) < length s"
proof -
  have "length (TrimLeft (drop (leadingSpace s) s)) \<le> length s - leadingSpace s"
    using TrimLeft_length [of "drop (leadingSpace s) s"] by simp
  moreover have "leadingSpace s \<le> length s" by (rule leadingSpace_le)
  ultimately show ?thesis using assms by (subst TrimLeft.simps) simp
qed

lemma TrimRight_shorter: 
  assumes "trailingSpace s \<noteq> 0" shows "length (TrimRight s) < length s"
proof -
  have "length (TrimRight (take (length s - trailingSpace s) s)) \<le> length s - trailingSpace s"
    using TrimRight_length [of "take (length s - trailingSpace s) s"] by simp
  moreover have "trailingSpace s \<le> length s" by (rule trailingSpace_le)
  ultimately show ?thesis using assms by (subst TrimRight.simps) simp
qed

lemma TrimSpace_fixed:
  assumes "TrimSpace s = s"
  shows "leadingSpace s = 0" and "trailingSpace s = 0"
proof -
  have len: "length (TrimRight (TrimLeft s)) = length s"
    using assms by (simp add: TrimSpace_def)
  show l: "leadingSpace s = 0"
  proof (rule ccontr)
    assume "leadingSpace s \<noteq> 0"
    then have "length (TrimLeft s) < length s" by (rule TrimLeft_shorter)
    with TrimRight_length [of "TrimLeft s"] len show False by simp
  qed
  then have "TrimLeft s = s" by (simp add: TrimLeft.simps)
  with len have len': "length (TrimRight s) = length s" by simp
  show "trailingSpace s = 0"
  proof (rule ccontr)
    assume "trailingSpace s \<noteq> 0"
    then have "length (TrimRight s) < length s" by (rule TrimRight_shorter)
    with len' show False by simp
  qed
qed

lemma TrimSpace_id: "leadingSpace s = 0 \<Longrightarrow> trailingSpace s = 0 \<Longrightarrow> TrimSpace s = s"
  by (simp add: TrimSpace_def TrimLeft.simps [of s] TrimRight.simps [of s])

lemma leadingSpace_before_dot:
  assumes "leadingSpace ns = 0" and "ns \<noteq> []"
  shows "leadingSpace (ns @ CHR ''.'' # name) = 0"
proof -
  have "\<not> prefix e (ns @ CHR ''.'' # name)" if e: "e \<in> set spaceRunes" for e
  proof
    assume "prefix e (ns @ CHR ''.'' # name)"
    then consider "prefix e ns" | us where "e = ns @ us" "prefix us (CHR ''.'' # name)"
      by (auto simp add: prefix_append)
    then show False
    proof cases
      case 1
      with assms(1) e show False by (simp add: leadingSpace_zero_iff)
    next
      case 2
      show False
      proof (cases us)
        case Nil
        with 2 have "prefix e ns" by simp
        with assms(1) e show False by (simp add: leadingSpace_zero_iff)
      next
        case (Cons u us')
        with 2 have "CHR ''.'' \<in> set e" by (auto simp add: prefix_Cons)
        with spaceRunes_no_dot [OF e] show False by simp
      qed
    qed
  qed
  then show ?thesis by (simp add: leadingSpace_zero_iff)
qed

lemma trailingSpace_after_dot:
  assumes "trailingSpace name = 0" and "name \<noteq> []"
  shows "trailingSpace (ns @ CHR ''.'' # name) = 0"
proof -
  have "\<not> suffix e (ns @ CHR ''.'' # name)" if e: "e \<in> set spaceRunes" for e
  proof
    assume "suffix e (ns @ CHR ''.'' # name)"
    then have "suffix e ((ns @ [CHR ''.'']) @ name)" by simp
    then consider "suffix e name" | us where "e = us @ name" "suffix us (ns @ [CHR ''.''])"
      unfolding suffix_append by blast
    then show False
    proof cases
      case 1
      with assms(1) e show False by (simp add: trailingSpace_zero_iff)
    next
      case 2
      show False
      proof (cases "us = []")
        case True
        with 2 have "suffix e name" by simp
        with assms(1) e show False by (simp add: trailingSpace_zero_iff)
      next
        case False
        with 2(2) have "last us = CHR ''.''"
          by (metis last_snoc last_appendR snoc_eq_iff_butlast suffix_def)
        with False have "CHR ''.'' \<in> set us" by (metis last_in_set)
        with 2(1) have "CHR ''.'' \<in> set e" by simp
        with spaceRunes_no_dot [OF e] show False by simp
      qed
    qed
  qed
  then show ?thesis by (simp add: trailingSpace_zero_iff)
qed

lemma IndexByte_first:
  "c \<notin> set xs \<Longrightarrow> IndexByte (xs @ c # ys) c = int (length xs)"
  by (induction xs) (auto simp add: IndexByte_def)

lemma IndexByte_none: "c \<notin> set s \<Longrightarrow> IndexByte s c = - 1"
  by (simp add: IndexByte_def)

text \<open>
  Claim C10. \<open>ParseKey\<close> and \<open>PolicyKey.String\<close> form a round trip on canonical keys: for
  every key whose namespace and name are non-empty, have no surrounding white space
  (\<open>TrimSpace\<close> leaves them as they are) and whose namespace contains no dot, parsing the
  printed key gives the key back; and a non-empty trimmed string without a dot parses to
  the key with an empty namespace and the string as its name.
\<close>

theorem ParseKey_String_round_trip:
  "(Namespace k \<noteq> [] \<and> Name k \<noteq> []
      \<and> TrimSpace (Namespace k) = Namespace k \<and> TrimSpace (Name k) = Name k
      \<and> CHR ''.'' \<notin> set (Namespace k)
    \<longrightarrow> ParseKey (PolicyKey_String k) = k)
   \<and> (s \<noteq> [] \<and> TrimSpace s = s \<and> CHR ''.'' \<notin> set s
    \<longrightarrow> ParseKey s = \<lparr>Namespace = [], Name = s\<rparr>)"
proof (intro conjI impI)
  assume a: "Namespace k \<noteq> [] \<and> Name k \<noteq> []
      \<and> TrimSpace (Namespace k) = Namespace k \<and> TrimSpace (Name k) = Name k
      \<and> CHR ''.'' \<notin> set (Namespace k)"
  define ns where "ns = Namespace k"
  define name where "name = Name k"
  from a have ne: "ns \<noteq> []" "name \<noteq> []" and t: "TrimSpace ns = ns" "TrimSpace name = name"
    and d: "CHR ''.'' \<notin> set ns"
    by (simp_all add: ns_def name_def)
  let ?s = "ns @ CHR ''.'' # name"
  have "leadingSpace ?s = 0"
    using TrimSpace_fixed(1) [OF t(1)] ne(1) by (rule leadingSpace_before_dot)
  moreover have "trailingSpace ?s = 0"
    using TrimSpace_fixed(2) [OF t(2)] ne(2) by (rule trailingSpace_after_dot)
  ultimately have ts: "TrimSpace ?s = ?s" by (rule TrimSpace_id)
  have ix: "IndexByte ?s (CHR ''.'') = int (length ns)"
    using d by (rule IndexByte_first)
  have "ParseKey ?s = \<lparr>Namespace = ns, Name = name\<rparr>"
    using ne t by (simp add: ParseKey_def ts ix nat_add_distrib)
  moreover have "PolicyKey_String k = ?s"
    using ne by (simp add: PolicyKey_String_def ns_def name_def)
  ultimately show "ParseKey (PolicyKey_String k) = k"
    by (simp add: ns_def name_def)
next
  assume "s \<noteq> [] \<and> TrimSpace s = s \<and> CHR ''.'' \<notin> set s"
  then show "ParseKey s = \<lparr>Namespace = [], Name = s\<rparr>"
    by (simp add: ParseKey_def IndexByte_none)
qed

theorem ParseKey_String_round_trip_witness:
  "(Namespace \<lparr>Namespace = ''svc'', Name = ''Method''\<rparr> \<noteq> []
      \<and> Name \<lparr>Namespace = ''svc'', Name = ''Method''\<rparr> \<noteq> []
      \<and> TrimSpace (Namespace \<lparr>Namespace = ''svc'', Name = ''Method''\<rparr>)
          = Namespace \<lparr>Namespace = ''svc'', Name = ''Method''\<rparr>
      \<and> TrimSpace (Name \<lparr>Namespace = ''svc'', Name = ''Method''\<rparr>)
          = Name \<lparr>Namespace = ''svc'', Name = ''Method''\<rparr>
      \<and> CHR ''.'' \<notin> set (Namespace \<lparr>Namespace = ''svc'', Name = ''Method''\<rparr>)
      \<and> ParseKey (PolicyKey_String \<lparr>Namespace = ''svc'', Name = ''Method''\<rparr>)
          = \<lparr>Namespace = ''svc'', Name = ''Method''\<rparr>)
   \<and> (''ping'' \<noteq> [] \<and> TrimSpace ''ping'' = ''ping'' \<and> CHR ''.'' \<notin> set ''ping''
      \<and> ParseKey ''ping'' = \<lparr>Namespace = [], Name = ''ping''\<rparr>)"
proof -
  have t1: "TrimSpace ''svc'' = ''svc''" by code_simp
  have t2: "TrimSpace ''Method'' = ''Method''" by code_simp
  have t3: "TrimSpace ''ping'' = ''ping''" by code_simp
  show ?thesis
    using ParseKey_String_round_trip [of "\<lparr>Namespace = ''svc'', Name = ''Method''\<rparr>" "''ping''"]
      t1 t2 t3
    by simp
qed

section \<open>Normalization\<close>

lemmas guard_defs = maxRetryAttempts_def maxHedges_def minBackoffFloor_def minHedgeDelayFloor_def
  maxBackoffCeiling_def minTimeoutFloor_def maxBackoffMultiplier_def minCircuitThreshold_def
  minCircuitCooldown_def Millisecond_def Second_def

lemmas normalize_defs = Normalize_def normalize_max_attempts_def normalize_initial_backoff_def
  normalize_max_backoff_def normalize_backoff_multiplier_def normalize_jitter_def
  normalize_timeout_per_attempt_def normalize_overall_timeout_def
  normalize_retry_budget_cost_def normalize_hedge_budget_cost_def normalize_max_hedges_def
  normalize_hedge_delay_def normalize_circuit_threshold_def normalize_circuit_cooldown_def
  markChanged_def

lemmas signed_cmp = word_sless_alt word_sle_eq

lemmas jitter_defs = JitterNone_def JitterFull_def JitterEqual_def

lemma markChanged_present:
  "Changed (Normalization (Meta n)) \<Longrightarrow> f \<in> set (ChangedFields (Normalization (Meta n)))
   \<Longrightarrow> markChanged f n = n"
  by (simp add: markChanged_def Let_def)

lemma markChanged_frame [simp]:
  "Key (markChanged f n) = Key n" "ID (markChanged f n) = ID n"
  "Retry (markChanged f n) = Retry n" "Hedge (markChanged f n) = Hedge n"
  "Circuit (markChanged f n) = Circuit n"
  "Source (Meta (markChanged f n)) = Source (Meta n)"
  by (simp_all add: markChanged_def Let_def)

lemma markChanged_marks [simp]:
  "Changed (Normalization (Meta (markChanged f n)))"
  "set (ChangedFields (Normalization (Meta (markChanged f n)))) =
     insert f (set (ChangedFields (Normalization (Meta n))))"
  by (auto simp add: markChanged_def Let_def)

subsection \<open>The blocks of \<open>Normalize\<close>, one by one\<close>

text \<open>
  For each block: the fields it leaves alone, that it only adds to the record of changed
  fields, the range it puts its own field into, and that it changes nothing once the field
  is in that range.
\<close>

lemma max_attempts_frame [simp]:
  "Key (normalize_max_attempts n) = Key n"
  "ID (normalize_max_attempts n) = ID n"
  "Source (Meta (normalize_max_attempts n)) = Source (Meta n)"
  "Hedge (normalize_max_attempts n) = Hedge n"
  "Circuit (normalize_max_attempts n) = Circuit n"
  "InitialBackoff (Retry (normalize_max_attempts n)) = InitialBackoff (Retry n)"
  "MaxBackoff (Retry (normalize_max_attempts n)) = MaxBackoff (Retry n)"
  "BackoffMultiplier (Retry (normalize_max_attempts n)) = BackoffMultiplier (Retry n)"
  "Jitter (Retry (normalize_max_attempts n)) = Jitter (Retry n)"
  "TimeoutPerAttempt (Retry (normalize_max_attempts n)) = TimeoutPerAttempt (Retry n)"
  "OverallTimeout (Retry (normalize_max_attempts n)) = OverallTimeout (Retry n)"
  "ClassifierName (Retry (normalize_max_attempts n)) = ClassifierName (Retry n)"
  "Retry_Budget (Retry (normalize_max_attempts n)) = Retry_Budget (Retry n)"
  by (simp_all add: normalize_max_attempts_def Let_def)

lemma max_attempts_marks:
  "Changed (Normalization (Meta n))
   \<Longrightarrow> Changed (Normalization (Meta (normalize_max_attempts n)))"
  "f \<in> set (ChangedFields (Normalization (Meta n)))
   \<Longrightarrow> f \<in> set (ChangedFields (Normalization (Meta (normalize_max_attempts n))))"
  by (simp_all add: normalize_max_attempts_def Let_def)

lemma max_attempts_range:
  "1 \<le> MaxAttempts (Retry (normalize_max_attempts n))"
  "MaxAttempts (Retry (normalize_max_attempts n)) \<le> 10"
  by (simp_all add: normalize_max_attempts_def guard_defs Let_def)

lemma max_attempts_fix:
  "1 \<le> MaxAttempts (Retry n)
   \<Longrightarrow> MaxAttempts (Retry n) \<le> 10
   \<Longrightarrow> normalize_max_attempts n = n"
  by (auto simp add: normalize_max_attempts_def guard_defs Let_def)

lemma initial_backoff_frame [simp]:
  "Key (normalize_initial_backoff n) = Key n"
  "ID (normalize_initial_backoff n) = ID n"
  "Source (Meta (normalize_initial_backoff n)) = Source (Meta n)"
  "Hedge (normalize_initial_backoff n) = Hedge n"
  "Circuit (normalize_initial_backoff n) = Circuit n"
  "MaxAttempts (Retry (normalize_initial_backoff n)) = MaxAttempts (Retry n)"
  "MaxBackoff (Retry (normalize_initial_backoff n)) = MaxBackoff (Retry n)"
  "BackoffMultiplier (Retry (normalize_initial_backoff n)) = BackoffMultiplier (Retry n)"
  "Jitter (Retry (normalize_initial_backoff n)) = Jitter (Retry n)"
  "TimeoutPerAttempt (Retry (normalize_initial_backoff n)) = TimeoutPerAttempt (Retry n)"
  "OverallTimeout (Retry (normalize_initial_backoff n)) = OverallTimeout (Retry n)"
  "ClassifierName (Retry (normalize_initial_backoff n)) = ClassifierName (Retry n)"
  "Retry_Budget (Retry (normalize_initial_backoff n)) = Retry_Budget (Retry n)"
  by (simp_all add: normalize_initial_backoff_def Let_def)

lemma initial_backoff_marks:
  "Changed (Normalization (Meta n))
   \<Longrightarrow> Changed (Normalization (Meta (normalize_initial_backoff n)))"
  "f \<in> set (ChangedFields (Normalization (Meta n)))
   \<Longrightarrow> f \<in> set (ChangedFields (Normalization (Meta (normalize_initial_backoff n))))"
  by (simp_all add: normalize_initial_backoff_def Let_def)

lemma initial_backoff_range:
  "\<not> InitialBackoff (Retry (normalize_initial_backoff n)) <s minBackoffFloor"
  by (simp_all add: normalize_initial_backoff_def guard_defs Let_def signed_cmp)

lemma initial_backoff_fix:
  "\<not> InitialBackoff (Retry n) <s minBackoffFloor
   \<Longrightarrow> normalize_initial_backoff n = n"
  by (auto simp add: normalize_initial_backoff_def guard_defs Let_def signed_cmp)

lemma max_backoff_frame [simp]:
  "Key (normalize_max_backoff n) = Key n"
  "ID (normalize_max_backoff n) = ID n"
  "Source (Meta (normalize_max_backoff n)) = Source (Meta n)"
  "Hedge (normalize_max_backoff n) = Hedge n"
  "Circuit (normalize_max_backoff n) = Circuit n"
  "MaxAttempts (Retry (normalize_max_backoff n)) = MaxAttempts (Retry n)"
  "InitialBackoff (Retry (normalize_max_backoff n)) = InitialBackoff (Retry n)"
  "BackoffMultiplier (Retry (normalize_max_backoff n)) = BackoffMultiplier (Retry n)"
  "Jitter (Retry (normalize_max_backoff n)) = Jitter (Retry n)"
  "TimeoutPerAttempt (Retry (normalize_max_backoff n)) = TimeoutPerAttempt (Retry n)"
  "OverallTimeout (Retry (normalize_max_backoff n)) = OverallTimeout (Retry n)"
  "ClassifierName (Retry (normalize_max_backoff n)) = ClassifierName (Retry n)"
  "Retry_Budget (Retry (normalize_max_backoff n)) = Retry_Budget (Retry n)"
  by (simp_all add: normalize_max_backoff_def Let_def)

lemma max_backoff_marks:
  "Changed (Normalization (Meta n))
   \<Longrightarrow> Changed (Normalization (Meta (normalize_max_backoff n)))"
  "f \<in> set (ChangedFields (Normalization (Meta n)))
   \<Longrightarrow> f \<in> set (ChangedFields (Normalization (Meta (normalize_max_backoff n))))"
  by (simp_all add: normalize_max_backoff_def Let_def)

lemma backoff_multiplier_frame [simp]:
  "Key (normalize_backoff_multiplier n) = Key n"
  "ID (normalize_backoff_multiplier n) = ID n"
  "Source (Meta (normalize_backoff_multiplier n)) = Source (Meta n)"
  "Hedge (normalize_backoff_multiplier n) = Hedge n"
  "Circuit (normalize_backoff_multiplier n) = Circuit n"
  "MaxAttempts (Retry (normalize_backoff_multiplier n)) = MaxAttempts (Retry n)"
  "InitialBackoff (Retry (normalize_backoff_multiplier n)) = InitialBackoff (Retry n)"
  "MaxBackoff (Retry (normalize_backoff_multiplier n)) = MaxBackoff (Retry n)"
  "Jitter (Retry (normalize_backoff_multiplier n)) = Jitter (Retry n)"
  "TimeoutPerAttempt (Retry (normalize_backoff_multiplier n)) = TimeoutPerAttempt (Retry n)"
  "OverallTimeout (Retry (normalize_backoff_multiplier n)) = OverallTimeout (Retry n)"
  "ClassifierName (Retry (normalize_backoff_multiplier n)) = ClassifierName (Retry n)"
  "Retry_Budget (Retry (normalize_backoff_multiplier n)) = Retry_Budget (Retry n)"
  by (simp_all add: normalize_backoff_multiplier_def Let_def)

lemma backoff_multiplier_marks:
  "Changed (Normalization (Meta n))
   \<Longrightarrow> Changed (Normalization (Meta (normalize_backoff_multiplier n)))"
  "f \<in> set (ChangedFields (Normalization (Meta n)))
   \<Longrightarrow> f \<in> set (ChangedFields (Normalization (Meta (normalize_backoff_multiplier n))))"
  by (simp_all add: normalize_backoff_multiplier_def Let_def)

lemma backoff_multiplier_range:
  "\<not> f64_eq (BackoffMultiplier (Retry (normalize_backoff_multiplier n))) (Finite 0)"
  "\<not> f64_lt (BackoffMultiplier (Retry (normalize_backoff_multiplier n))) (Finite 1)"
  "\<not> f64_lt maxBackoffMultiplier (BackoffMultiplier (Retry (normalize_backoff_multiplier n)))"
  by (simp_all add: normalize_backoff_multiplier_def guard_defs Let_def f64_eq_def)

lemma backoff_multiplier_fix:
  "\<not> f64_eq (BackoffMultiplier (Retry n)) (Finite 0)
   \<Longrightarrow> \<not> f64_lt (BackoffMultiplier (Retry n)) (Finite 1)
   \<Longrightarrow> \<not> f64_lt maxBackoffMultiplier (BackoffMultiplier (Retry n))
   \<Longrightarrow> normalize_backoff_multiplier n = n"
  by (auto simp add: normalize_backoff_multiplier_def guard_defs Let_def f64_eq_def)

lemma timeout_per_attempt_frame [simp]:
  "Key (normalize_timeout_per_attempt n) = Key n"
  "ID (normalize_timeout_per_attempt n) = ID n"
  "Source (Meta (normalize_timeout_per_attempt n)) = Source (Meta n)"
  "Hedge (normalize_timeout_per_attempt n) = Hedge n"
  "Circuit (normalize_timeout_per_attempt n) = Circuit n"
  "MaxAttempts (Retry (normalize_timeout_per_attempt n)) = MaxAttempts (Retry n)"
  "InitialBackoff (Retry (normalize_timeout_per_attempt n)) = InitialBackoff (Retry n)"
  "MaxBackoff (Retry (normalize_timeout_per_attempt n)) = MaxBackoff (Retry n)"
  "BackoffMultiplier (Retry (normalize_timeout_per_attempt n)) = BackoffMultiplier (Retry n)"
  "Jitter (Retry (normalize_timeout_per_attempt n)) = Jitter (Retry n)"
  "OverallTimeout (Retry (normalize_timeout_per_attempt n)) = OverallTimeout (Retry n)"
  "ClassifierName (Retry (normalize_timeout_per_attempt n)) = ClassifierName (Retry n)"
  "Retry_Budget (Retry (normalize_timeout_per_attempt n)) = Retry_Budget (Retry n)"
  by (simp_all add: normalize_timeout_per_attempt_def Let_def)

lemma timeout_per_attempt_marks:
  "Changed (Normalization (Meta n))
   \<Longrightarrow> Changed (Normalization (Meta (normalize_timeout_per_attempt n)))"
  "f \<in> set (ChangedFields (Normalization (Meta n)))
   \<Longrightarrow> f \<in> set (ChangedFields (Normalization (Meta (normalize_timeout_per_attempt n))))"
  by (simp_all add: normalize_timeout_per_attempt_def Let_def)

lemma timeout_per_attempt_range:
  "\<not> TimeoutPerAttempt (Retry (normalize_timeout_per_attempt n)) <s 0"
  "\<not> (0 <s TimeoutPerAttempt (Retry (normalize_timeout_per_attempt n)) \<and> TimeoutPerAttempt (Retry (normalize_timeout_per_attempt n)) <s minTimeoutFloor)"
  by (simp_all add: normalize_timeout_per_attempt_def guard_defs Let_def signed_cmp)

lemma timeout_per_attempt_fix:
  "\<not> TimeoutPerAttempt (Retry n) <s 0
   \<Longrightarrow> \<not> (0 <s TimeoutPerAttempt (Retry n) \<and> TimeoutPerAttempt (Retry n) <s minTimeoutFloor)
   \<Longrightarrow> normalize_timeout_per_attempt n = n"
  by (auto simp add: normalize_timeout_per_attempt_def guard_defs Let_def signed_cmp)

lemma overall_timeout_frame [simp]:
  "Key (normalize_overall_timeout n) = Key n"
  "ID (normalize_overall_timeout n) = ID n"
  "Source (Meta (normalize_overall_timeout n)) = Source (Meta n)"
  "Hedge (normalize_overall_timeout n) = Hedge n"
  "Circuit (normalize_overall_timeout n) = Circuit n"
  "MaxAttempts (Retry (normalize_overall_timeout n)) = MaxAttempts (Retry n)"
  "InitialBackoff (Retry (normalize_overall_timeout n)) = InitialBackoff (Retry n)"
  "MaxBackoff (Retry (normalize_overall_timeout n)) = MaxBackoff (Retry n)"
  "BackoffMultiplier (Retry (normalize_overall_timeout n)) = BackoffMultiplier (Retry n)"
  "Jitter (Retry (normalize_overall_timeout n)) = Jitter (Retry n)"
  "TimeoutPerAttempt (Retry (normalize_overall_timeout n)) = TimeoutPerAttempt (Retry n)"
  "ClassifierName (Retry (normalize_overall_timeout n)) = ClassifierName (Retry n)"
  "Retry_Budget (Retry (normalize_overall_timeout n)) = Retry_Budget (Retry n)"
  by (simp_all add: normalize_overall_timeout_def Let_def)

lemma overall_timeout_marks:
  "Changed (Normalization (Meta n))
   \<Longrightarrow> Changed (Normalization (Meta (normalize_overall_timeout n)))"
  "f \<in> set (ChangedFields (Normalization (Meta n)))
   \<Longrightarrow> f \<in> set (ChangedFields (Normalization (Meta (normalize_overall_timeout n))))"
  by (simp_all add: normalize_overall_timeout_def Let_def)

lemma overall_timeout_range:
  "\<not> OverallTimeout (Retry (normalize_overall_timeout n)) <s 0"
  "\<not> (0 <s OverallTimeout (Retry (normalize_overall_timeout n)) \<and> OverallTimeout (Retry (normalize_overall_timeout n)) <s minTimeoutFloor)"
  by (simp_all add: normalize_overall_timeout_def guard_defs Let_def signed_cmp)

lemma overall_timeout_fix:
  "\<not> OverallTimeout (Retry n) <s 0
   \<Longrightarrow> \<not> (0 <s OverallTimeout (Retry n) \<and> OverallTimeout (Retry n) <s minTimeoutFloor)
   \<Longrightarrow> normalize_overall_timeout n = n"
  by (auto simp add: normalize_overall_timeout_def guard_defs Let_def signed_cmp)

lemma retry_budget_cost_frame [simp]:
  "Key (normalize_retry_budget_cost n) = Key n"
  "ID (normalize_retry_budget_cost n) = ID n"
  "Source (Meta (normalize_retry_budget_cost n)) = Source (Meta n)"
  "Hedge (normalize_retry_budget_cost n) = Hedge n"
  "Circuit (normalize_retry_budget_cost n) = Circuit n"
  "MaxAttempts (Retry (normalize_retry_budget_cost n)) = MaxAttempts (Retry n)"
  "InitialBackoff (Retry (normalize_retry_budget_cost n)) = InitialBackoff (Retry n)"
  "MaxBackoff (Retry (normalize_retry_budget_cost n)) = MaxBackoff (Retry n)"
  "BackoffMultiplier (Retry (normalize_retry_budget_cost n)) = BackoffMultiplier (Retry n)"
  "Jitter (Retry (normalize_retry_budget_cost n)) = Jitter (Retry n)"
  "TimeoutPerAttempt (Retry (normalize_retry_budget_cost n)) = TimeoutPerAttempt (Retry n)"
  "OverallTimeout (Retry (normalize_retry_budget_cost n)) = OverallTimeout (Retry n)"
  "ClassifierName (Retry (normalize_retry_budget_cost n)) = ClassifierName (Retry n)"
  "Budget_Name (Retry_Budget (Retry (normalize_retry_budget_cost n))) = Budget_Name (Retry_Budget (Retry n))"
  by (simp_all add: normalize_retry_budget_cost_def Let_def)

lemma retry_budget_cost_marks:
  "Changed (Normalization (Meta n))
   \<Longrightarrow> Changed (Normalization (Meta (normalize_retry_budget_cost n)))"
  "f \<in> set (ChangedFields (Normalization (Meta n)))
   \<Longrightarrow> f \<in> set (ChangedFields (Normalization (Meta (normalize_retry_budget_cost n))))"
  by (simp_all add: normalize_retry_budget_cost_def Let_def)

lemma retry_budget_cost_range:
  "1 \<le> Cost (Retry_Budget (Retry (normalize_retry_budget_cost n)))"
  by (simp_all add: normalize_retry_budget_cost_def guard_defs Let_def)

lemma retry_budget_cost_fix:
  "1 \<le> Cost (Retry_Budget (Retry n))
   \<Longrightarrow> normalize_retry_budget_cost n = n"
  by (auto simp add: normalize_retry_budget_cost_def guard_defs Let_def)

lemma hedge_budget_cost_frame [simp]:
  "Key (normalize_hedge_budget_cost n) = Key n"
  "ID (normalize_hedge_budget_cost n) = ID n"
  "Source (Meta (normalize_hedge_budget_cost n)) = Source (Meta n)"
  "Retry (normalize_hedge_budget_cost n) = Retry n"
  "Circuit (normalize_hedge_budget_cost n) = Circuit n"
  "Hedge_Enabled (Hedge (normalize_hedge_budget_cost n)) = Hedge_Enabled (Hedge n)"
  "MaxHedges (Hedge (normalize_hedge_budget_cost n)) = MaxHedges (Hedge n)"
  "HedgeDelay (Hedge (normalize_hedge_budget_cost n)) = HedgeDelay (Hedge n)"
  "TriggerName (Hedge (normalize_hedge_budget_cost n)) = TriggerName (Hedge n)"
  "CancelOnFirstTerminal (Hedge (normalize_hedge_budget_cost n)) = CancelOnFirstTerminal (Hedge n)"
  "Budget_Name (Hedge_Budget (Hedge (normalize_hedge_budget_cost n))) = Budget_Name (Hedge_Budget (Hedge n))"
  by (simp_all add: normalize_hedge_budget_cost_def Let_def)

lemma hedge_budget_cost_marks:
  "Changed (Normalization (Meta n))
   \<Longrightarrow> Changed (Normalization (Meta (normalize_hedge_budget_cost n)))"
  "f \<in> set (ChangedFields (Normalization (Meta n)))
   \<Longrightarrow> f \<in> set (ChangedFields (Normalization (Meta (normalize_hedge_budget_cost n))))"
  by (simp_all add: normalize_hedge_budget_cost_def Let_def)

lemma hedge_budget_cost_range:
  "1 \<le> Cost (Hedge_Budget (Hedge (normalize_hedge_budget_cost n)))"
  by (simp_all add: normalize_hedge_budget_cost_def guard_defs Let_def)

lemma hedge_budget_cost_fix:
  "1 \<le> Cost (Hedge_Budget (Hedge n))
   \<Longrightarrow> normalize_hedge_budget_cost n = n"
  by (auto simp add: normalize_hedge_budget_cost_def guard_defs Let_def)

lemma max_hedges_frame [simp]:
  "Key (normalize_max_hedges n) = Key n"
  "ID (normalize_max_hedges n) = ID n"
  "Source (Meta (normalize_max_hedges n)) = Source (Meta n)"
  "Retry (normalize_max_hedges n) = Retry n"
  "Circuit (normalize_max_hedges n) = Circuit n"
  "Hedge_Enabled (Hedge (normalize_max_hedges n)) = Hedge_Enabled (Hedge n)"
  "HedgeDelay (Hedge (normalize_max_hedges n)) = HedgeDelay (Hedge n)"
  "TriggerName (Hedge (normalize_max_hedges n)) = TriggerName (Hedge n)"
  "CancelOnFirstTerminal (Hedge (normalize_max_hedges n)) = CancelOnFirstTerminal (Hedge n)"
  "Hedge_Budget (Hedge (normalize_max_hedges n)) = Hedge_Budget (Hedge n)"
  by (simp_all add: normalize_max_hedges_def Let_def)

lemma max_hedges_marks:
  "Changed (Normalization (Meta n))
   \<Longrightarrow> Changed (Normalization (Meta (normalize_max_hedges n)))"
  "f \<in> set (ChangedFields (Normalization (Meta n)))
   \<Longrightarrow> f \<in> set (ChangedFields (Normalization (Meta (normalize_max_hedges n))))"
  by (simp_all add: normalize_max_hedges_def Let_def)

lemma max_hedges_range:
  "1 \<le> MaxHedges (Hedge (normalize_max_hedges n))"
  "MaxHedges (Hedge (normalize_max_hedges n)) \<le> 3"
  by (simp_all add: normalize_max_hedges_def guard_defs Let_def)

lemma max_hedges_fix:
  "1 \<le> MaxHedges (Hedge n)
   \<Longrightarrow> MaxHedges (Hedge n) \<le> 3
   \<Longrightarrow> normalize_max_hedges n = n"
  by (auto simp add: normalize_max_hedges_def guard_defs Let_def)

lemma hedge_delay_frame [simp]:
  "Key (normalize_hedge_delay n) = Key n"
  "ID (normalize_hedge_delay n) = ID n"
  "Source (Meta (normalize_hedge_delay n)) = Source (Meta n)"
  "Retry (normalize_hedge_delay n) = Retry n"
  "Circuit (normalize_hedge_delay n) = Circuit n"
  "Hedge_Enabled (Hedge (normalize_hedge_delay n)) = Hedge_Enabled (Hedge n)"
  "MaxHedges (Hedge (normalize_hedge_delay n)) = MaxHedges (Hedge n)"
  "TriggerName (Hedge (normalize_hedge_delay n)) = TriggerName (Hedge n)"
  "CancelOnFirstTerminal (Hedge (normalize_hedge_delay n)) = CancelOnFirstTerminal (Hedge n)"
  "Hedge_Budget (Hedge (normalize_hedge_delay n)) = Hedge_Budget (Hedge n)"
  by (simp_all add: normalize_hedge_delay_def Let_def)

lemma hedge_delay_marks:
  "Changed (Normalization (Meta n))
   \<Longrightarrow> Changed (Normalization (Meta (normalize_hedge_delay n)))"
  "f \<in> set (ChangedFields (Normalization (Meta n)))
   \<Longrightarrow> f \<in> set (ChangedFields (Normalization (Meta (normalize_hedge_delay n))))"
  by (simp_all add: normalize_hedge_delay_def Let_def)

lemma hedge_delay_range:
  "\<not> HedgeDelay (Hedge (normalize_hedge_delay n)) <s minHedgeDelayFloor"
  by (simp_all add: normalize_hedge_delay_def guard_defs Let_def signed_cmp)

lemma hedge_delay_fix:
  "\<not> HedgeDelay (Hedge n) <s minHedgeDelayFloor
   \<Longrightarrow> normalize_hedge_delay n = n"
  by (auto simp add: normalize_hedge_delay_def guard_defs Let_def signed_cmp)

lemma circuit_threshold_frame [simp]:
  "Key (normalize_circuit_threshold n) = Key n"
  "ID (normalize_circuit_threshold n) = ID n"
  "Source (Meta (normalize_circuit_threshold n)) = Source (Meta n)"
  "Retry (normalize_circuit_threshold n) = Retry n"
  "Hedge (normalize_circuit_threshold n) = Hedge n"
  "Circuit_Enabled (Circuit (normalize_circuit_threshold n)) = Circuit_Enabled (Circuit n)"
  "Cooldown (Circuit (normalize_circuit_threshold n)) = Cooldown (Circuit n)"
  by (simp_all add: normalize_circuit_threshold_def Let_def)

lemma circuit_threshold_marks:
  "Changed (Normalization (Meta n))
   \<Longrightarrow> Changed (Normalization (Meta (normalize_circuit_threshold n)))"
  "f \<in> set (ChangedFields (Normalization (Meta n)))
   \<Longrightarrow> f \<in> set (ChangedFields (Normalization (Meta (normalize_circuit_threshold n))))"
  by (simp_all add: normalize_circuit_threshold_def Let_def)

lemma circuit_threshold_range:
  "1 \<le> Threshold (Circuit (normalize_circuit_threshold n))"
  by (simp_all add: normalize_circuit_threshold_def guard_defs Let_def)

lemma circuit_threshold_fix:
  "1 \<le> Threshold (Circuit n)
   \<Longrightarrow> normalize_circuit_threshold n = n"
  by (auto simp add: normalize_circuit_threshold_def guard_defs Let_def)

lemma circuit_cooldown_frame [simp]:
  "Key (normalize_circuit_cooldown n) = Key n"
  "ID (normalize_circuit_cooldown n) = ID n"
  "Source (Meta (normalize_circuit_cooldown n)) = Source (Meta n)"
  "Retry (normalize_circuit_cooldown n) = Retry n"
  "Hedge (normalize_circuit_cooldown n) = Hedge n"
  "Circuit_Enabled (Circuit (normalize_circuit_cooldown n)) = Circuit_Enabled (Circuit n)"
  "Threshold (Circuit (normalize_circuit_cooldown n)) = Threshold (Circuit n)"
  by (simp_all add: normalize_circuit_cooldown_def Let_def)

lemma circuit_cooldown_marks:
  "Changed (Normalization (Meta n))
   \<Longrightarrow> Changed (Normalization (Meta (normalize_circuit_cooldown n)))"
  "f \<in> set (ChangedFields (Normalization (Meta n)))
   \<Longrightarrow> f \<in> set (ChangedFields (Normalization (Meta (normalize_circuit_cooldown n))))"
  by (simp_all add: normalize_circuit_cooldown_def Let_def)

lemma circuit_cooldown_range:
  "\<not> Cooldown (Circuit (normalize_circuit_cooldown n)) <s minCircuitCooldown"
  by (simp_all add: normalize_circuit_cooldown_def guard_defs Let_def signed_cmp)

lemma circuit_cooldown_fix:
  "\<not> Cooldown (Circuit n) <s minCircuitCooldown
   \<Longrightarrow> normalize_circuit_cooldown n = n"
  by (auto simp add: normalize_circuit_cooldown_def guard_defs Let_def signed_cmp)

lemma max_backoff_range:
  "\<not> InitialBackoff (Retry n) <s minBackoffFloor \<Longrightarrow> max_backoff_settled (normalize_max_backoff n)"
  by (simp add: max_backoff_settled_def normalize_max_backoff_def guard_defs Let_def signed_cmp)

lemma max_backoff_fix:
  assumes "max_backoff_settled n"
  shows "normalize_max_backoff n = n"
proof (cases "maxBackoffCeiling <s MaxBackoff (Retry n)")
  case False
  with assms show ?thesis
    by (simp add: max_backoff_settled_def normalize_max_backoff_def Let_def)
next
  case True
  with assms have m: "MaxBackoff (Retry n) = InitialBackoff (Retry n)"
    and c: "Changed (Normalization (Meta n))"
    and f: "''retry.max_backoff'' \<in> set (ChangedFields (Normalization (Meta n)))"
    and p: "\<not> MaxBackoff (Retry n) \<le>s 0"
    by (auto simp add: max_backoff_settled_def)
  have mc: "\<And>r. markChanged ''retry.max_backoff'' (n\<lparr>Retry := r\<rparr>) = n\<lparr>Retry := r\<rparr>"
    using c f by (simp add: markChanged_present)
  from True p m show ?thesis
    by (simp add: normalize_max_backoff_def Let_def mc)
qed

lemma max_backoff_settled_carried:
  assumes "max_backoff_settled n"
    and "MaxBackoff (Retry n') = MaxBackoff (Retry n)"
    and "InitialBackoff (Retry n') = InitialBackoff (Retry n)"
    and "Changed (Normalization (Meta n)) \<Longrightarrow> Changed (Normalization (Meta n'))"
    and "''retry.max_backoff'' \<in> set (ChangedFields (Normalization (Meta n)))
         \<Longrightarrow> ''retry.max_backoff'' \<in> set (ChangedFields (Normalization (Meta n')))"
  shows "max_backoff_settled n'"
  using assms by (auto simp add: max_backoff_settled_def)

lemma jitter_result:
  assumes "normalize_jitter n = Inr n'"
  shows "Jitter (Retry n') = JitterNone \<or> Jitter (Retry n') = JitterFull
         \<or> Jitter (Retry n') = JitterEqual"
    and "Key n' = Key n" and "ID n' = ID n" and "Source (Meta n') = Source (Meta n)"
    and "Hedge n' = Hedge n" and "Circuit n' = Circuit n"
    and "MaxAttempts (Retry n') = MaxAttempts (Retry n)"
    and "InitialBackoff (Retry n') = InitialBackoff (Retry n)"
    and "MaxBackoff (Retry n') = MaxBackoff (Retry n)"
    and "BackoffMultiplier (Retry n') = BackoffMultiplier (Retry n)"
    and "TimeoutPerAttempt (Retry n') = TimeoutPerAttempt (Retry n)"
    and "OverallTimeout (Retry n') = OverallTimeout (Retry n)"
    and "ClassifierName (Retry n') = ClassifierName (Retry n)"
    and "Retry_Budget (Retry n') = Retry_Budget (Retry n)"
    and "Changed (Normalization (Meta n)) \<Longrightarrow> Changed (Normalization (Meta n'))"
    and "\<And>f. f \<in> set (ChangedFields (Normalization (Meta n)))
         \<Longrightarrow> f \<in> set (ChangedFields (Normalization (Meta n')))"
  using assms by (auto simp add: normalize_jitter_def split: if_splits)

lemma jitter_fix:
  "Jitter (Retry n) = JitterNone \<or> Jitter (Retry n) = JitterFull \<or> Jitter (Retry n) = JitterEqual
   \<Longrightarrow> normalize_jitter n = Inr n"
  by (auto simp add: normalize_jitter_def jitter_defs)

lemma retry_settled_carried:
  assumes "retry_settled n"
    and "Retry n' = Retry n"
    and "Cost (Hedge_Budget (Hedge n')) = Cost (Hedge_Budget (Hedge n))"
    and "Changed (Normalization (Meta n)) \<Longrightarrow> Changed (Normalization (Meta n'))"
    and "''retry.max_backoff'' \<in> set (ChangedFields (Normalization (Meta n)))
         \<Longrightarrow> ''retry.max_backoff'' \<in> set (ChangedFields (Normalization (Meta n')))"
  shows "retry_settled n'"
proof -
  from assms(1) have "max_backoff_settled n" by (simp add: retry_settled_def)
  then have "max_backoff_settled n'"
    using assms(2-5) by (intro max_backoff_settled_carried [of n n']) simp_all
  with assms(1-3) show ?thesis by (simp add: retry_settled_def)
qed

lemma Normalize_settled_fix:
  assumes "settled q"
  shows "Normalize q = Inr q"
proof -
  from assms have r: "retry_settled q" by (simp add: settled_def)
  have b1: "normalize_max_attempts q = q"
    using r by (simp add: retry_settled_def max_attempts_fix)
  have b2: "normalize_initial_backoff q = q"
    using r by (simp add: retry_settled_def initial_backoff_fix)
  have b3: "normalize_max_backoff q = q"
    using r by (simp add: retry_settled_def max_backoff_fix)
  have b4: "normalize_backoff_multiplier q = q"
    using r by (simp add: retry_settled_def backoff_multiplier_fix)
  have b5: "normalize_jitter q = Inr q"
    using r by (simp add: retry_settled_def jitter_fix)
  have b6: "normalize_timeout_per_attempt q = q"
    using r by (simp add: retry_settled_def timeout_per_attempt_fix)
  have b7: "normalize_overall_timeout q = q"
    using r by (simp add: retry_settled_def overall_timeout_fix)
  have b8: "normalize_retry_budget_cost q = q"
    using r by (simp add: retry_settled_def retry_budget_cost_fix)
  have b9: "normalize_hedge_budget_cost q = q"
    using r by (simp add: retry_settled_def hedge_budget_cost_fix)
  have b10: "normalize_max_hedges q = q" and b11: "normalize_hedge_delay q = q"
    if "Hedge_Enabled (Hedge q)"
    using that assms by (simp_all add: settled_def hedge_settled_def max_hedges_fix hedge_delay_fix)
  have b12: "normalize_circuit_threshold q = q" and b13: "normalize_circuit_cooldown q = q"
    if "Hedge_Enabled (Hedge q)" and "Circuit_Enabled (Circuit q)"
    using that assms
    by (simp_all add: settled_def circuit_settled_def circuit_threshold_fix circuit_cooldown_fix)
  show ?thesis
    by (simp add: Normalize_def b1 b2 b3 b4 b5 b6 b7 b8 b9 b10 b11 b12 b13)
qed

lemma Normalize_settles:
  assumes "Normalize p = Inr q"
  shows "settled q"
proof -
  define n4 where
    "n4 = normalize_backoff_multiplier (normalize_max_backoff
            (normalize_initial_backoff (normalize_max_attempts p)))"
  from assms obtain n5 where j: "normalize_jitter n4 = Inr n5"
    by (auto simp add: Normalize_def n4_def split: sum.splits)
  define n9 where
    "n9 = normalize_hedge_budget_cost (normalize_retry_budget_cost
            (normalize_overall_timeout (normalize_timeout_per_attempt n5)))"
  define n11 where "n11 = normalize_hedge_delay (normalize_max_hedges n9)"
  define n13 where "n13 = normalize_circuit_cooldown (normalize_circuit_threshold n11)"
  have q: "q = (if \<not> Hedge_Enabled (Hedge n9) then n9
                else if \<not> Circuit_Enabled (Circuit n11) then n11 else n13)"
    using assms j
    by (auto simp add: Normalize_def n4_def n9_def n11_def n13_def Let_def split: if_splits)
  have ib: "\<not> InitialBackoff (Retry (normalize_initial_backoff (normalize_max_attempts p)))
              <s minBackoffFloor"
    by (rule initial_backoff_range)
  have mb4: "max_backoff_settled n4"
    unfolding n4_def
    by (rule max_backoff_settled_carried [OF max_backoff_range [OF ib]])
       (simp_all add: backoff_multiplier_marks)
  have mb5: "max_backoff_settled n5"
    by (rule max_backoff_settled_carried [OF mb4]) (simp_all add: jitter_result [OF j])
  have mb9: "max_backoff_settled n9"
    unfolding n9_def
    by (rule max_backoff_settled_carried [OF mb5])
       (simp_all add: timeout_per_attempt_marks overall_timeout_marks retry_budget_cost_marks
          hedge_budget_cost_marks)
  have r9: "retry_settled n9"
    unfolding retry_settled_def
    using mb9 max_attempts_range [of p] initial_backoff_range [of "normalize_max_attempts p"]
      backoff_multiplier_range [of "normalize_max_backoff
            (normalize_initial_backoff (normalize_max_attempts p))"]
      timeout_per_attempt_range [of n5] 
      overall_timeout_range [of "normalize_timeout_per_attempt n5"]
      retry_budget_cost_range [of "normalize_overall_timeout (normalize_timeout_per_attempt n5)"]
      hedge_budget_cost_range [of "normalize_retry_budget_cost
         (normalize_overall_timeout (normalize_timeout_per_attempt n5))"]
    by (simp add: n9_def jitter_result [OF j] n4_def)
  have r11: "retry_settled n11"
    unfolding n11_def
    by (rule retry_settled_carried [OF r9]) (simp_all add: max_hedges_marks hedge_delay_marks)
  have r13: "retry_settled n13"
    unfolding n13_def
    by (rule retry_settled_carried [OF r11])
       (simp_all add: circuit_threshold_marks circuit_cooldown_marks)
  have h11: "hedge_settled n11"
    using max_hedges_range [of n9] hedge_delay_range [of "normalize_max_hedges n9"]
    by (simp add: hedge_settled_def n11_def)
  have h13: "hedge_settled n13"
    using h11 by (simp add: hedge_settled_def n13_def)
  have c13: "circuit_settled n13"
    using circuit_threshold_range [of n11]
      circuit_cooldown_range [of "normalize_circuit_threshold n11"]
    by (simp add: circuit_settled_def n13_def)
  have e11: "Hedge_Enabled (Hedge n11) = Hedge_Enabled (Hedge n9)"
    by (simp add: n11_def)
  have e13: "Hedge_Enabled (Hedge n13) = Hedge_Enabled (Hedge n9)"
    "Circuit_Enabled (Circuit n13) = Circuit_Enabled (Circuit n11)"
    by (simp_all add: n13_def n11_def)
  show ?thesis
    using r9 r11 r13 h11 h13 c13 e11 e13 by (simp add: q settled_def)
qed

text \<open>
  Claim C6. \<open>Normalize\<close> is idempotent: when it succeeds on a policy, normalizing the
  result succeeds and returns that result unchanged, the recorded list of changed field
  paths included.
\<close>

theorem Normalize_idempotent:
  "Normalize p = Inr q \<Longrightarrow> Normalize q = Inr q"
  by (rule Normalize_settled_fix) (rule Normalize_settles)

theorem Normalize_idempotent_witness:
  "Normalize (MaxAttempts_opt 99 (DefaultPolicyFor \<lparr>Namespace = ''svc'', Name = ''Method''\<rparr>))
     = Inr (markChanged ''retry.max_attempts''
             (MaxAttempts_opt 10 (DefaultPolicyFor \<lparr>Namespace = ''svc'', Name = ''Method''\<rparr>)))
   \<and> Normalize (markChanged ''retry.max_attempts''
             (MaxAttempts_opt 10 (DefaultPolicyFor \<lparr>Namespace = ''svc'', Name = ''Method''\<rparr>)))
     = Inr (markChanged ''retry.max_attempts''
             (MaxAttempts_opt 10 (DefaultPolicyFor \<lparr>Namespace = ''svc'', Name = ''Method''\<rparr>)))"
proof -
  have first:
    "Normalize (MaxAttempts_opt 99 (DefaultPolicyFor \<lparr>Namespace = ''svc'', Name = ''Method''\<rparr>))
       = Inr (markChanged ''retry.max_attempts''
               (MaxAttempts_opt 10 (DefaultPolicyFor \<lparr>Namespace = ''svc'', Name = ''Method''\<rparr>)))"
    by (simp add: normalize_defs MaxAttempts_opt_def DefaultPolicyFor_def guard_defs
        signed_cmp f64_eq_def jitter_defs Let_def)
  from first Normalize_idempotent [OF first] show ?thesis by simp
qed

text \<open>
  Claim C5 (the hard guardrails of a normalized policy), at an input where the code leaves
  them: the default policy for \<open>svc.Method\<close> with the option \<open>Backoff(60s, 1s, NaN)\<close>
  applied. \<open>Normalize\<close> succeeds on it; the maximal backoff of the result is 60 s, above
  the ceiling of 30 s, and the backoff multiplier of the result is still not-a-number.
\<close>

theorem Normalize_guardrails_failing_input:
  "(case Normalize (Backoff_opt (60 * Second) (1 * Second) NaN
                     (DefaultPolicyFor \<lparr>Namespace = ''svc'', Name = ''Method''\<rparr>)) of
      Inl e \<Rightarrow> False
    | Inr q \<Rightarrow> MaxBackoff (Retry q) = 60 * Second
               \<and> maxBackoffCeiling <s MaxBackoff (Retry q)
               \<and> BackoffMultiplier (Retry q) = NaN)"
  by (simp add: normalize_defs Backoff_opt_def DefaultPolicyFor_def guard_defs
      signed_cmp f64_eq_def jitter_defs Let_def)

subsection \<open>\<open>New\<close> and \<open>NewFromKey\<close>\<close>

lemma Normalize_default: "Normalize (DefaultPolicyFor key) = Inr (DefaultPolicyFor key)"
  by (rule Normalize_settled_fix)
     (simp add: settled_def retry_settled_def max_backoff_settled_def DefaultPolicyFor_def
        guard_defs signed_cmp f64_eq_def)

lemma Normalize_result_not_zero:
  assumes "Normalize p = Inr q"
  shows "q \<noteq> zero_EffectivePolicy"
proof
  assume "q = zero_EffectivePolicy"
  then have "MaxAttempts (Retry q) = 0" by (simp add: zero_EffectivePolicy_def)
  moreover from assms have "1 \<le> MaxAttempts (Retry q)"
    using Normalize_settles [of p q] by (simp add: settled_def retry_settled_def)
  ultimately show False by simp
qed

lemma NewFromKey_cases:
  "(\<exists>n. Normalize (applyOptions opts (DefaultPolicyFor key)) = Inr n \<and> NewFromKey key opts = n)
   \<or> (\<exists>e. Normalize (applyOptions opts (DefaultPolicyFor key)) = Inl e
         \<and> NewFromKey key opts = DefaultPolicyFor key)"
  by (cases "Normalize (applyOptions opts (DefaultPolicyFor key))")
     (simp_all add: NewFromKey_def Normalize_default)

lemma NewFromKey_normalized:
  "\<exists>p. Normalize p = Inr (NewFromKey key opts)"
  using NewFromKey_cases [of opts key] Normalize_default [of key] by metis

text \<open>
  Claim C9. For every key and every list of options, \<open>NewFromKey\<close> (and \<open>New\<close>, which
  parses its key first) returns a policy that is the successful result of \<open>Normalize\<close>
  and is not the zero policy. When \<open>Normalize\<close> fails on the default policy with the
  options applied, the result is the normalized default policy for the key, which is the
  default policy itself: no option survives.
\<close>

theorem New_returns_normalized_policy:
  "(\<exists>p. Normalize p = Inr (NewFromKey key opts))
   \<and> NewFromKey key opts \<noteq> zero_EffectivePolicy
   \<and> (\<forall>e. Normalize (applyOptions opts (DefaultPolicyFor key)) = Inl e
        \<longrightarrow> Normalize (DefaultPolicyFor key) = Inr (NewFromKey key opts)
            \<and> NewFromKey key opts = DefaultPolicyFor key)
   \<and> (\<exists>p. Normalize p = Inr (New s opts))
   \<and> New s opts \<noteq> zero_EffectivePolicy
   \<and> (\<forall>e. Normalize (applyOptions opts (DefaultPolicyFor (ParseKey s))) = Inl e
        \<longrightarrow> Normalize (DefaultPolicyFor (ParseKey s)) = Inr (New s opts)
            \<and> New s opts = DefaultPolicyFor (ParseKey s))"
proof -
  have a: "\<exists>p. Normalize p = Inr (NewFromKey k opts)" for k
    by (rule NewFromKey_normalized)
  have b: "NewFromKey k opts \<noteq> zero_EffectivePolicy" for k
    using a [of k] Normalize_result_not_zero by blast
  have c: "Normalize (DefaultPolicyFor k) = Inr (NewFromKey k opts)
           \<and> NewFromKey k opts = DefaultPolicyFor k"
    if "Normalize (applyOptions opts (DefaultPolicyFor k)) = Inl e" for k e
    using that by (simp add: NewFromKey_def Normalize_default)
  show ?thesis
    using a b c unfolding New_def by blast
qed

theorem New_returns_normalized_policy_witness:
  "Normalize (applyOptions [MaxAttempts_opt 7, Jitter_opt ''bogus'']
               (DefaultPolicyFor \<lparr>Namespace = ''svc'', Name = ''Method''\<rparr>))
     = Inl (NormalizeError ''retry.jitter'' ''bogus'')
   \<and> Normalize (DefaultPolicyFor \<lparr>Namespace = ''svc'', Name = ''Method''\<rparr>)
     = Inr (NewFromKey \<lparr>Namespace = ''svc'', Name = ''Method''\<rparr>
             [MaxAttempts_opt 7, Jitter_opt ''bogus''])
   \<and> NewFromKey \<lparr>Namespace = ''svc'', Name = ''Method''\<rparr> [MaxAttempts_opt 7, Jitter_opt ''bogus'']
     = DefaultPolicyFor \<lparr>Namespace = ''svc'', Name = ''Method''\<rparr>
   \<and> ParseKey ''svc.Method'' = \<lparr>Namespace = ''svc'', Name = ''Method''\<rparr>
   \<and> New ''svc.Method'' [MaxAttempts_opt 7, Jitter_opt ''bogus'']
     = DefaultPolicyFor \<lparr>Namespace = ''svc'', Name = ''Method''\<rparr>
   \<and> MaxAttempts (Retry (New ''svc.Method'' [MaxAttempts_opt 7, Jitter_opt ''bogus''])) = 3"
proof -
  have k: "ParseKey ''svc.Method'' = \<lparr>Namespace = ''svc'', Name = ''Method''\<rparr>"
    by code_simp
  have f: "Normalize (applyOptions [MaxAttempts_opt 7, Jitter_opt ''bogus'']
               (DefaultPolicyFor \<lparr>Namespace = ''svc'', Name = ''Method''\<rparr>))
     = Inl (NormalizeError ''retry.jitter'' ''bogus'')"
    by (simp add: normalize_defs MaxAttempts_opt_def Jitter_opt_def DefaultPolicyFor_def
        guard_defs signed_cmp f64_eq_def jitter_defs Let_def)
  have d: "MaxAttempts (Retry (DefaultPolicyFor \<lparr>Namespace = ''svc'', Name = ''Method''\<rparr>)) = 3"
    by (simp add: DefaultPolicyFor_def)
  show ?thesis
    using New_returns_normalized_policy
      [of "\<lparr>Namespace = ''svc'', Name = ''Method''\<rparr>"
          "[MaxAttempts_opt 7, Jitter_opt ''bogus'']" "''svc.Method''"] f k d
    by simp
qed

section \<open>The retry group\<close>

subsection \<open>Attempt records\<close>

lemma recordsOf_launch_length:
  "length (recordsOf (launch e key pol retryIdx lastBackoff idx isHedge)) = 1"
  by (auto simp add: launch_def attemptGoroutine_def Let_def split: prod.splits)

lemma Attempt_recordsOf_launch:
  "map Attempt (recordsOf (launch e key pol retryIdx lastBackoff idx isHedge)) = [retryIdx]"
  by (auto simp add: launch_def attemptGoroutine_def Let_def split: prod.splits)

lemma HedgeIndex_recordsOf_launch:
  "map HedgeIndex (recordsOf (launch e key pol retryIdx lastBackoff idx isHedge)) = [idx]"
  by (auto simp add: launch_def attemptGoroutine_def Let_def split: prod.splits)

lemma Attempt_concat_launches:
  "map Attempt (concat (map (\<lambda>(idx, isHedge).
       recordsOf (launch (env idx) key pol retryIdx lb idx isHedge)) ls))
   = replicate (length ls) retryIdx"
  by (induction ls) (auto simp add: Attempt_recordsOf_launch)

lemma length_concat_launches:
  "length (concat (map (\<lambda>(idx, isHedge).
       recordsOf (launch (env idx) key pol retryIdx lb idx isHedge)) ls)) = length ls"
  by (induction ls) (auto simp add: recordsOf_launch_length)

lemma Attempt_groupRecords:
  "map Attempt (groupRecords triggers key pol retryIdx run)
   = replicate (length (groupRecords triggers key pol retryIdx run)) retryIdx"
  by (cases "groupLaunches triggers pol (run_start run) (run_ticks run)")
     (simp_all add: groupRecords_def Attempt_concat_launches length_concat_launches)

text \<open>
  Claim C2 (the \<open>Attempt\<close> field increases strictly in launch order, so a hedge carries a
  larger value than its primary), evaluated on the code. Every record of a group carries
  the retry index of the group in \<open>Attempt\<close>. At the concrete group with retry index 0,
  hedging enabled and a hedge launched 225 ms after the start, the records in launch order
  have hedge indexes 0 and 1 and \<open>Attempt\<close> values 0 and 0: the hedge repeats the value of
  its primary.
\<close>

theorem hedge_record_repeats_Attempt:
  "map Attempt (groupRecords triggers key pol retryIdx run)
     = replicate (length (groupRecords triggers key pol retryIdx run)) retryIdx
   \<and> map HedgeIndex (groupRecords None svc_Method hedged_policy 0 hedged_run) = [0, 1]
   \<and> map Attempt (groupRecords None svc_Method hedged_policy 0 hedged_run) = [0, 0]"
proof -
  have l: "groupLaunches None hedged_policy (run_start hedged_run) (run_ticks hedged_run)
           = Inr [(0, False), (1, True)]"
    by (simp add: groupLaunches_def hedgeSpawner_def groupMaxHedges_def resolveTrigger_def
        hedged_policy_def EnableHedging_def DefaultPolicyFor_def hedged_run_def
        ShouldSpawnHedge_def Millisecond_def Let_def signed_cmp)
  have h: "map HedgeIndex (groupRecords None svc_Method hedged_policy 0 hedged_run) = [0, 1]"
    by (simp add: groupRecords_def l HedgeIndex_recordsOf_launch)
  have a: "map Attempt (groupRecords None svc_Method hedged_policy 0 hedged_run) = [0, 0]"
    by (simp add: groupRecords_def l Attempt_recordsOf_launch)
  show ?thesis using Attempt_groupRecords h a by blast
qed

subsection \<open>Budget denial\<close>

text \<open>
  Claim C3, amended. For every attempt, primary or hedge, on which \<open>allowAttempt\<close> answers
  not allowed: the attempt passes one record to \<open>recordAttempt\<close>, with
  \<open>BudgetAllowed = false\<close> and an \<open>Abort\<close> outcome whose reason is the reason of the budget
  decision; it sends one result, with the same synthetic outcome and the attempt's
  \<open>isHedge\<close> flag; and it never calls \<open>op\<close>. The reason is whatever the decision says
  (\<open>budget_denied\<close> when the budget itself said no), not \<open>budget_denied\<close> in every case.
\<close>

theorem denied_attempt_is_recorded_not_run:
  "allowAttempt e key (if isHedge then Hedge_Budget (Hedge pol) else Retry_Budget (Retry pol))
       retryIdx (if isHedge then KindHedge else KindRetry) = (decision, False)
   \<Longrightarrow> recordsOf (attemptGoroutine e key pol retryIdx lastBackoff idx isHedge)
         = [\<lparr>Attempt = retryIdx, StartTime = clock e 0, EndTime = clock e 1,
             IsHedge = isHedge, HedgeIndex = idx,
             Outcome = \<lparr>Kind = OutcomeAbort, Reason = Decision_Reason decision,
                        Attributes = [], BackoffOverride = 0\<rparr>,
             Err = None, Backoff = (if isHedge then 0 else lastBackoff),
             BudgetAllowed = False, BudgetReason = Decision_Reason decision\<rparr>]
       \<and> sentOf (attemptGoroutine e key pol retryIdx lastBackoff idx isHedge)
         = [\<lparr>res_val = None, res_err = Some (errorString (Decision_Reason decision)),
             res_outcome = \<lparr>Kind = OutcomeAbort, Reason = Decision_Reason decision,
                             Attributes = [], BackoffOverride = 0\<rparr>,
             res_start = clock e 0, res_end = clock e 2, res_isHedge = isHedge,
             res_idx = idx, res_panicErr = None\<rparr>]
       \<and> opCalls (attemptGoroutine e key pol retryIdx lastBackoff idx isHedge) = []"
  by (simp add: attemptGoroutine_def Let_def)

theorem denied_attempt_is_recorded_not_run_witness:
  "allowAttempt panicking_budget_env svc_Method
       (if True then Hedge_Budget (Hedge hedged_policy) else Retry_Budget (Retry hedged_policy))
       0 (if True then KindHedge else KindRetry)
     = (\<lparr>Allowed = False, Decision_Reason = ReasonPanicInBudget, Release = False\<rparr>, False)
   \<and> recordsOf (attemptGoroutine panicking_budget_env svc_Method hedged_policy 0 0 1 True)
     = [\<lparr>Attempt = 0, StartTime = 0, EndTime = 1, IsHedge = True, HedgeIndex = 1,
         Outcome = \<lparr>Kind = OutcomeAbort, Reason = ReasonPanicInBudget, Attributes = [],
                    BackoffOverride = 0\<rparr>,
         Err = None, Backoff = 0, BudgetAllowed = False, BudgetReason = ReasonPanicInBudget\<rparr>]
   \<and> map res_isHedge
         (sentOf (attemptGoroutine panicking_budget_env svc_Method hedged_policy 0 0 1 True))
     = [True]
   \<and> opCalls (attemptGoroutine panicking_budget_env svc_Method hedged_policy 0 0 1 True) = []"
proof -
  have d: "allowAttempt panicking_budget_env svc_Method
       (if True then Hedge_Budget (Hedge hedged_policy) else Retry_Budget (Retry hedged_policy))
       0 (if True then KindHedge else KindRetry)
     = (\<lparr>Allowed = False, Decision_Reason = ReasonPanicInBudget, Release = False\<rparr>, False)"
    by (simp add: panicking_budget_env_def failing_op_env_def)
  have c: "clock panicking_budget_env 0 = 0" "clock panicking_budget_env 1 = 1"
    by (simp_all add: panicking_budget_env_def failing_op_env_def)
  from d denied_attempt_is_recorded_not_run [OF d, of 0 1] c show ?thesis by simp
qed

text \<open>
  Claim C3 as stated fails where the budget gate denies with another reason: here it
  denies a hedge with \<open>panic_in_budget\<close>, and that is the reason of the outcome sent.
\<close>

theorem denied_attempt_reason_counterexample:
  "snd (allowAttempt panicking_budget_env svc_Method (Hedge_Budget (Hedge hedged_policy)) 0
          KindHedge) = False
   \<and> Reason (res_outcome (hd (sentOf
         (attemptGoroutine panicking_budget_env svc_Method hedged_policy 0 0 1 True))))
       \<noteq> ReasonBudgetDenied"
  by (simp add: attemptGoroutine_def panicking_budget_env_def failing_op_env_def Let_def
      ReasonPanicInBudget_def ReasonBudgetDenied_def)

subsection \<open>Waiting for results\<close>


lemma waitLoop_success_after:
  "waitLoop c lastRel failures pre = None \<Longrightarrow> Kind (res_outcome res) = OutcomeSuccess \<Longrightarrow>
   waitLoop c lastRel failures (pre @ Result res active # rest)
     = Some (res_val res, None, res_outcome res, True)"
proof (induction pre arbitrary: lastRel failures)
  case Nil
  then show ?case by simp
next
  case (Cons ev pre)
  show ?case
  proof (cases ev)
    case (Result r a)
    with Cons.prems have "waitLoop c (Some r) (failures + 1) pre = None"
      by (simp split: if_splits)
    then have "waitLoop c (Some r) (failures + 1) (pre @ Result res active # rest)
       = Some (res_val res, None, res_outcome res, True)"
      using Cons.prems(2) by (rule Cons.IH)
    with Result Cons.prems show ?thesis by (auto split: if_splits)
  next
    case (CtxDone e)
    with Cons.prems show ?thesis by simp
  qed
qed

text \<open>
  What the loop returns when no attempt succeeds and \<open>CancelOnFirstTerminal\<close> is false: the
  result that arrives when no attempt is active any more, whatever arrived before it.
\<close>

lemma waitLoop_last_failure:
  assumes "list_all (\<lambda>ev. \<exists>r a. ev = Result r a \<and> Kind (res_outcome r) \<noteq> OutcomeSuccess
                              \<and> a \<noteq> 0) pre"
    and "Kind (res_outcome res) \<noteq> OutcomeSuccess"
  shows "waitLoop False lastRel failures (pre @ Result res 0 # rest)
         = Some (res_val res, res_err res, res_outcome res, False)"
  using assms by (induction pre arbitrary: lastRel failures) auto

text \<open>
  Claim C1 (outcome precedence \<open>Success > NonRetryable > Abort > Retryable\<close>), evaluated on
  the code. Hedging is enabled and \<open>CancelOnFirstTerminal\<close> is false. The primary finishes
  first with a \<open>NonRetryable\<close> outcome while the hedge is still active; then the hedge
  finishes with a \<open>Retryable\<close> outcome and no attempt is active. \<open>doRetryGroup\<close> returns
  the hedge's error and its \<open>Retryable\<close> outcome: the last result to arrive, not the one of
  highest precedence.
\<close>

theorem group_result_is_last_failure:
  "CancelOnFirstTerminal (Hedge hedged_policy) = False
   \<and> Kind (res_outcome nonretryable_result) = OutcomeNonRetryable
   \<and> doRetryGroup hedged_policy [Result nonretryable_result 1, Result retryable_result 0]
     = Some (None, Some (errorString ''connection refused''),
             \<lparr>Kind = OutcomeRetryable, Reason = ''default_retry'', Attributes = [],
              BackoffOverride = 0\<rparr>, False)"
  by (simp add: doRetryGroup_def hedged_policy_def EnableHedging_def DefaultPolicyFor_def
      Let_def nonretryable_result_def retryable_result_def)




subsection \<open>The number of attempts\<close>










end
